theory Spec2Isabelle
  imports Complex_Main
begin

section \<open>Numbers, strings and random sources\<close>

text \<open>
  JavaScript numbers are modelled as follows: probabilities, roll values, frame-relative
  times (\<open>performance.now()\<close>), growth times and remote positions are \<^typ>\<open>real\<close>;
  wall-clock times (\<open>Date.now()\<close>), stamina, harvest counters, stack counts and tile
  coordinates are \<^typ>\<open>int\<close>. \<open>NaN\<close> and the infinities are not modelled. A decimal
  literal that is only compared with a draw (the thresholds of the rarity roll, the 2% of
  the seed drop) denotes the exact decimal fraction; the weights of the quality roll are
  added up, and are doubles under the addition of doubles.

  A random source (\<open>Math.random\<close> or an injected \<open>rng\<close>) is the sequence of the values
  it returns on successive calls, together with the number of calls made so far. A
  function that draws returns the advanced call counter with its result.

  A string is the list of the bytes of its UTF-8 form.

  Fields keep the names of the source, except where two objects share a name or HOL has
  the name already: \<open>name\<close> is \<open>rname\<close>, \<open>qname\<close> or \<open>iname\<close>, \<open>x\<close> and \<open>y\<close> are
  \<open>d_x\<close>, \<open>d_y\<close> on a decoration and \<open>p_x\<close>, \<open>p_y\<close> on the player, \<open>type\<close> is \<open>dtype\<close> or
  \<open>ptype\<close>, \<open>max\<close> is \<open>max_st\<close>, and \<open>exp\<close> is \<open>xp\<close>.
\<close>

type_synonym rng = "nat \<Rightarrow> real"

subsection \<open>Doubles\<close>

text \<open>
  The double nearest to a real number, ties to the even significand: the magnitude is
  scaled into \<open>[2^52, 2^53)\<close> (the exponent stops at -1074, where the subnormal numbers
  lie, and at 971), rounded to an integer and scaled back. Values beyond the largest
  double would be infinite and are not modelled.
\<close>

definition roundEven :: "real \<Rightarrow> int" where
  "roundEven x =
     (let f = \<lfloor>x\<rfloor>; d = x - of_int f
      in if d < 1 / 2 then f else if 1 / 2 < d then f + 1 else if even f then f else f + 1)"

function scaleUp :: "real \<Rightarrow> int \<Rightarrow> real \<times> int" where
  "scaleUp m e = (if m < 2 ^ 52 \<and> - 1074 < e then scaleUp (2 * m) (e - 1) else (m, e))"
  by pat_completeness auto
termination
  by (relation "measure (\<lambda>(m, e). nat (e + 1074))") auto

function scaleDown :: "real \<Rightarrow> int \<Rightarrow> real \<times> int" where
  "scaleDown m e = (if 2 ^ 53 \<le> m \<and> e < 971 then scaleDown (m / 2) (e + 1) else (m, e))"
  by pat_completeness auto
termination
  by (relation "measure (\<lambda>(m, e). nat (971 - e))") auto

definition pow2 :: "int \<Rightarrow> real" where
  "pow2 e = (if 0 \<le> e then 2 ^ nat e else 1 / 2 ^ nat (- e))"

definition toDouble :: "real \<Rightarrow> real" where
  "toDouble x =
     (if x = 0 then 0
      else
        let (m1, e1) = scaleDown \<bar>x\<bar> 0;
            (m2, e2) = scaleUp m1 e1
        in sgn x * of_int (roundEven m2) * pow2 e2)"

text \<open>\<open>x + y\<close> on doubles.\<close>

definition fadd :: "real \<Rightarrow> real \<Rightarrow> real" where
  "fadd x y = toDouble (x + y)"

subsection \<open>White space\<close>

text \<open>
  The code points that \<open>String.prototype.trim\<close> and the class \<open>\s\<close> of a regular
  expression take for white space, in UTF-8: U+0009 to U+000D, U+0020, U+00A0, U+1680,
  U+2000 to U+200A, U+2028, U+2029, U+202F, U+205F, U+3000 and U+FEFF.
\<close>

definition WHITE_SPACE :: "string list" where
  "WHITE_SPACE =
     [[CHR 0x09], [CHR 0x0A], [CHR 0x0B], [CHR 0x0C], [CHR 0x0D], [CHR 0x20],
      [CHR 0xC2, CHR 0xA0],
      [CHR 0xE1, CHR 0x9A, CHR 0x80],
      [CHR 0xE2, CHR 0x80, CHR 0x80], [CHR 0xE2, CHR 0x80, CHR 0x81],
      [CHR 0xE2, CHR 0x80, CHR 0x82], [CHR 0xE2, CHR 0x80, CHR 0x83],
      [CHR 0xE2, CHR 0x80, CHR 0x84], [CHR 0xE2, CHR 0x80, CHR 0x85],
      [CHR 0xE2, CHR 0x80, CHR 0x86], [CHR 0xE2, CHR 0x80, CHR 0x87],
      [CHR 0xE2, CHR 0x80, CHR 0x88], [CHR 0xE2, CHR 0x80, CHR 0x89],
      [CHR 0xE2, CHR 0x80, CHR 0x8A],
      [CHR 0xE2, CHR 0x80, CHR 0xA8], [CHR 0xE2, CHR 0x80, CHR 0xA9],
      [CHR 0xE2, CHR 0x80, CHR 0xAF],
      [CHR 0xE2, CHR 0x81, CHR 0x9F],
      [CHR 0xE3, CHR 0x80, CHR 0x80],
      [CHR 0xEF, CHR 0xBB, CHR 0xBF]]"

text \<open>The first of the sequences \<open>ws\<close> that the string begins with.\<close>

definition leading :: "string list \<Rightarrow> string \<Rightarrow> string option" where
  "leading ws s = find (\<lambda>w. w \<noteq> [] \<and> take (length w) s = w) ws"

function stripLeading :: "string list \<Rightarrow> string \<Rightarrow> string" where
  "stripLeading ws s =
     (case leading ws s of
        Some w \<Rightarrow> stripLeading ws (drop (length w) s)
      | None \<Rightarrow> s)"
  by pat_completeness auto
termination
proof (relation "measure (\<lambda>(ws, s). length s)")
  show "wf (measure (\<lambda>(ws, s). length s))" by simp
next
  fix ws s w
  assume "leading ws s = Some w"
  then have "w \<noteq> []" and "take (length w) s = w"
    by (auto simp: leading_def find_Some_iff)
  have "0 < length w" using \<open>w \<noteq> []\<close> by simp
  moreover have "length (take (length w) s) = length w"
    using \<open>take (length w) s = w\<close> by simp
  then have "length w \<le> length s" by simp
  ultimately show "((ws, drop (length w) s), (ws, s)) \<in> measure (\<lambda>(ws, s). length s)"
    by (cases w) auto
qed

definition trimStart :: "string \<Rightarrow> string" where
  "trimStart s = stripLeading WHITE_SPACE s"

definition trimEnd :: "string \<Rightarrow> string" where
  "trimEnd s = rev (stripLeading (map rev WHITE_SPACE) (rev s))"

text \<open>\<open>String.prototype.trim\<close>.\<close>

definition trim :: "string \<Rightarrow> string" where
  "trim s = trimEnd (trimStart s)"

section \<open>item.js: the item system\<close>

datatype category = TREE | FLOWER | MINERAL

record rarity =
  rname :: string
  chance :: real
  color :: string

definition RARITIES :: "rarity list" where
  "RARITIES =
    [\<lparr>rname = ''Godlike'', chance = 0.0001, color = ''#B44CFF''\<rparr>,
     \<lparr>rname = ''Mythic'', chance = 0.01, color = ''#FF33AA''\<rparr>,
     \<lparr>rname = ''Legendary'', chance = 0.10, color = ''#FF9900''\<rparr>,
     \<lparr>rname = ''Rare'', chance = 0.25, color = ''#3399FF''\<rparr>,
     \<lparr>rname = ''Uncommon'', chance = 0.50, color = ''#33CC66''\<rparr>,
     \<lparr>rname = ''Common'', chance = 0.80, color = ''#BBBBBB''\<rparr>]"

record quality =
  qname :: string
  weight :: real

definition QUALITIES :: "quality list" where
  "QUALITIES =
    [\<lparr>qname = ''Dull'', weight = toDouble 0.60\<rparr>,
     \<lparr>qname = ''Normal'', weight = toDouble 0.30\<rparr>,
     \<lparr>qname = ''Refined'', weight = toDouble 0.08\<rparr>,
     \<lparr>qname = ''Pristine'', weight = toDouble 0.015\<rparr>,
     \<lparr>qname = ''Exquisite'', weight = toDouble 0.005\<rparr>]"

definition FRUIT_TREES :: "string list" where
  "FRUIT_TREES = [''Apple'', ''Lemon'', ''Mango'', ''Orange'', ''Peach'', ''Coconut'']"

definition WOOD_TREES :: "string list" where
  "WOOD_TREES = [''Birch'', ''Maple'', ''Oak'', ''Pine'', ''Willow'', ''Jacaranda'']"

definition BLOSSOM_TREES :: "(string \<times> string) list" where
  "BLOSSOM_TREES = [(''Sakura'', ''Sakura Blossom'')]"

text \<open>
  The loop of \<open>rollRarityCascade\<close> over the rows that are left: it stops at the row named
  \<open>Common\<close> without drawing, and otherwise draws once for the row.
\<close>

fun cascade :: "rarity list \<Rightarrow> rng \<Rightarrow> nat \<Rightarrow> string \<times> nat" where
  "cascade [] rng n = (''Common'', n)"
| "cascade (r # rs) rng n =
     (if rname r = ''Common'' then (''Common'', n)
      else if rng n < chance r then (rname r, Suc n)
      else cascade rs rng (Suc n))"

definition rollRarityCascade :: "rng \<Rightarrow> nat \<Rightarrow> string \<times> nat" where
  "rollRarityCascade rng n = cascade RARITIES rng n"

text \<open>
  The loop of \<open>rollQuality\<close>: \<open>acc\<close> is the running sum before the row; \<open>None\<close> means the
  loop ended without returning.
\<close>

fun qualityLoop :: "quality list \<Rightarrow> real \<Rightarrow> real \<Rightarrow> string option" where
  "qualityLoop [] roll acc = None"
| "qualityLoop (q # qs) roll acc =
     (let acc' = fadd acc (weight q)
      in if roll < acc' then Some (qname q) else qualityLoop qs roll acc')"

definition rollQuality :: "rng \<Rightarrow> nat \<Rightarrow> string \<times> nat" where
  "rollQuality rng n =
     (let roll = rng n
      in (case qualityLoop QUALITIES roll 0 of
            Some q \<Rightarrow> q
          | None \<Rightarrow> qname (last QUALITIES), Suc n))"

definition normalizeNodeName :: "string \<Rightarrow> string" where
  "normalizeNodeName nm = trim nm"

text \<open>
  \<open>replace(/\s*(tree|Tree)$/g, '')\<close>: a final \<open>tree\<close> or \<open>Tree\<close> is removed together
  with the white space before it.
\<close>

definition stripTreeSuffix :: "string \<Rightarrow> string" where
  "stripTreeSuffix s =
     (let n = length s
      in if 4 \<le> n \<and> (drop (n - 4) s = ''tree'' \<or> drop (n - 4) s = ''Tree'')
         then trimEnd (take (n - 4) s)
         else s)"

definition baseTreeName :: "string \<Rightarrow> string" where
  "baseTreeName nodeName = trim (stripTreeSuffix (normalizeNodeName nodeName))"

definition inferTreeItem :: "string \<Rightarrow> string" where
  "inferTreeItem nodeName =
     (let base = baseTreeName nodeName
      in if base \<in> set FRUIT_TREES then base
         else case map_of BLOSSOM_TREES base of
                Some b \<Rightarrow> b
              | None \<Rightarrow> if base \<in> set WOOD_TREES then base @ '' Wood'' else base @ '' Wood'')"

definition inferFlowerItem :: "string \<Rightarrow> string" where
  "inferFlowerItem nodeName = normalizeNodeName nodeName"

definition inferMineralItem :: "string \<Rightarrow> string" where
  "inferMineralItem nodeName = normalizeNodeName nodeName"

definition assetPath :: "category \<Rightarrow> string \<Rightarrow> string" where
  "assetPath cat itemName =
     (case cat of
        FLOWER \<Rightarrow> ''assets/flower/'' @ itemName @ ''.png''
      | MINERAL \<Rightarrow> ''assets/minerals/'' @ itemName @ ''.png''
      | TREE \<Rightarrow>
          if itemName \<in> set FRUIT_TREES then ''assets/tree/'' @ itemName @ ''.png''
          else if itemName = ''Sakura Blossom'' then ''assets/tree/Sakura.png''
          else [])"

text \<open>
  The object returned by \<open>gather\<close>; its \<open>id\<close> and \<open>createdAt\<close> (a sequence number and the
  clock) are left out.
\<close>

record item =
  icategory :: category
  source :: string
  iname :: string
  irarity :: string
  iquality :: string
  icon :: string

datatype gather_error = NodeNameRequired

text \<open>
  \<open>gather(category, nodeName)\<close> with the default random source. The category is one of the
  three literals the caller passes, so the checks for a missing or unknown category have no
  branch here; an empty node name throws.
\<close>

definition gather :: "category \<Rightarrow> string \<Rightarrow> rng \<Rightarrow> nat \<Rightarrow> gather_error + (item \<times> nat)" where
  "gather cat nodeName rng n =
     (if nodeName = [] then Inl NodeNameRequired
      else
        let itemName = (case cat of
                          TREE \<Rightarrow> inferTreeItem nodeName
                        | FLOWER \<Rightarrow> inferFlowerItem nodeName
                        | MINERAL \<Rightarrow> inferMineralItem nodeName);
            (rar, n1) = rollRarityCascade rng n;
            (qual, n2) = rollQuality rng n1
        in Inr (\<lparr>icategory = cat, source = normalizeNodeName nodeName, iname = itemName,
                  irarity = rar, iquality = qual, icon = assetPath cat itemName\<rparr>, n2))"

section \<open>mechanics.js: stamina\<close>

text \<open>
  \<open>Mechanics.stamina\<close> and \<open>Game.stamina\<close> are one object once \<open>Mechanics.init\<close> has
  run. A stamina object that was never stamped has no \<open>lastRegenAt\<close>.
\<close>

record stamina =
  current :: int
  max_st :: int
  lastRegenAt :: "int option"

definition STAMINA_REGEN_INTERVAL_MS :: int where
  "STAMINA_REGEN_INTERVAL_MS = 5 * 60 * 1000"

definition drain :: "int \<Rightarrow> stamina \<Rightarrow> stamina" where
  "drain amount s = s\<lparr>current := max 0 (current s - amount)\<rparr>"

definition regen :: "int \<Rightarrow> stamina \<Rightarrow> stamina" where
  "regen amount s = s\<lparr>current := min (max_st s) (current s + amount)\<rparr>"

text \<open>\<open>Mechanics.__applyStaminaCatchup\<close> at the wall-clock instant \<open>now\<close>.\<close>

definition applyStaminaCatchup :: "int \<Rightarrow> stamina \<Rightarrow> stamina" where
  "applyStaminaCatchup now s =
     (case lastRegenAt s of
        None \<Rightarrow> s\<lparr>lastRegenAt := Some now\<rparr>
      | Some l \<Rightarrow>
          let elapsed = now - l
          in if elapsed < STAMINA_REGEN_INTERVAL_MS then s
             else if current s \<ge> max_st s then s\<lparr>lastRegenAt := Some now\<rparr>
             else
               let ticks = elapsed div STAMINA_REGEN_INTERVAL_MS
               in if ticks > 0 then
                    let room = max 0 (max_st s - current s);
                        add = min ticks room;
                        s1 = (if add > 0 then regen add s else s)
                    in s1\<lparr>lastRegenAt := Some (l + ticks * STAMINA_REGEN_INTERVAL_MS)\<rparr>
                  else s)"

section \<open>preloader.js: constants and the game state\<close>

definition TILE_SIZE :: int where "TILE_SIZE = 32"
definition WORLD_W :: int where "WORLD_W = 256"
definition WORLD_H :: int where "WORLD_H = 120"
definition MOVE_COOLDOWN_MS :: real where "MOVE_COOLDOWN_MS = 120"
definition GATHER_TIME_MS :: real where "GATHER_TIME_MS = 1500"

text \<open>The four strings of \<open>Dir\<close>.\<close>

datatype dir = Up | Down | Left | Right

text \<open>The keys of \<open>CROPS\<close>.\<close>

datatype crop = turnip | wheat | corn



definition TILE_Grass :: nat where "TILE_Grass = 0"
definition TILE_Path :: nat where "TILE_Path = 2"
definition TILE_Water :: nat where "TILE_Water = 3"

record plant =
  ptype :: crop
  stage :: nat
  growthMs :: real

record tile =
  tileId :: nat
  tilled :: bool
  watered :: bool
  waterEndAt :: real
  plant :: "plant option"
  coord :: "int \<times> int"
  walkable :: bool

definition makeTile :: "int \<Rightarrow> int \<Rightarrow> nat \<Rightarrow> tile" where
  "makeTile x y baseId =
     \<lparr>tileId = baseId, tilled = False, watered = False, waterEndAt = 0, plant = None,
      coord = (x, y), walkable = (baseId \<noteq> TILE_Water)\<rparr>"

text \<open>
  A decoration object. Objects of a save made before the harvest counters existed have
  none until \<open>ensureDecorHarvestCounters\<close> has run, and \<open>kind\<close> may be missing.
\<close>

record decoration =
  d_x :: int
  d_y :: int
  dtype :: string
  kind :: "string option"
  maxHarvests :: "int option"
  remainingHarvests :: "int option"

record player =
  p_x :: int
  p_y :: int
  facing :: dir
  lastMoveAt :: real

text \<open>Decoration objects live in a store and are named by references.\<close>

type_synonym ref = nat

record gather_state =
  active :: bool
  target :: "ref option"
  startAt :: real
  duration :: real
  progress :: real

record last_seen =
  l_rarity :: string
  l_quality :: string
  l_category :: category
  l_source :: string

text \<open>
  What a table of counts holds under a key: a number, or something that is not a number
  (\<open>Junk\<close>: the string that adding 1 to a member of \<open>Object.prototype\<close> makes).
\<close>

datatype slot = Count int | Junk

record item_meta =
  total :: int
  countsByRarity :: "string \<rightharpoonup> slot"
  countsByQuality :: "string \<rightharpoonup> slot"
  last_meta :: "last_seen option"

record inventory =
  items :: "string \<rightharpoonup> slot"
  gitems :: "string \<rightharpoonup> slot"
  itemMeta :: "string \<rightharpoonup> item_meta"

record skill =
  level :: int
  xp :: int

record floaty =
  f_text :: string
  f_x :: int
  f_y :: int
  f_color :: string

text \<open>
  The global \<open>Game\<close> object with the parts the functions below touch, the list
  \<open>floaties\<close>, the number of calls made to \<open>Math.random\<close>, and whether
  \<open>window.ItemSystem\<close> is there. \<open>world g y x\<close> is \<open>Game.world[y][x]\<close>; the grid is only
  read inside its bounds.
\<close>

record game =
  world :: "int \<Rightarrow> int \<Rightarrow> tile"
  decor :: "ref list"
  store :: "ref \<Rightarrow> decoration"
  player :: player
  gatherSt :: gather_state
  inv :: inventory
  skills :: "string \<rightharpoonup> skill"
  stamina :: stamina
  floaties :: "floaty list"
  randomCalls :: nat
  itemSystemLoaded :: bool

definition showFloatingText :: "string \<Rightarrow> int \<Rightarrow> int \<Rightarrow> string \<Rightarrow> game \<Rightarrow> game" where
  "showFloatingText text gx gy col g =
     g\<lparr>floaties := floaties g @
         [\<lparr>f_text = text, f_x = gx * TILE_SIZE + TILE_SIZE div 2,
           f_y = gy * TILE_SIZE + TILE_SIZE div 2, f_color = col\<rparr>]\<rparr>"

definition inBounds :: "int \<Rightarrow> int \<Rightarrow> bool" where
  "inBounds x y = (x \<ge> 0 \<and> y \<ge> 0 \<and> x < WORLD_W \<and> y < WORLD_H)"

definition tileAt :: "game \<Rightarrow> int \<Rightarrow> int \<Rightarrow> tile option" where
  "tileAt g x y = (if \<not> inBounds x y then None else Some (world g y x))"

text \<open>\<open>Array.prototype.find\<close>: the first decoration of the layer at the tile.\<close>

definition decorAt :: "game \<Rightarrow> int \<Rightarrow> int \<Rightarrow> ref option" where
  "decorAt g x y = find (\<lambda>r. d_x (store g r) = x \<and> d_y (store g r) = y) (decor g)"

definition isBlocked :: "game \<Rightarrow> int \<Rightarrow> int \<Rightarrow> bool" where
  "isBlocked g x y =
     (if \<not> inBounds x y then True
      else if \<not> walkable (world g y x) then True
      else case decorAt g x y of
             Some r \<Rightarrow>
               if dtype (store g r) = ''Trees'' \<or> dtype (store g r) = ''minerals'' then True
               else False
           | None \<Rightarrow> False)"

subsection \<open>Player movement\<close>

text \<open>
  \<open>stepPlayer\<close>: \<open>now\<close> is \<open>performance.now()\<close> and \<open>desired\<close> the result of
  \<open>desiredDirFromKeys()\<close>. Saving and the position broadcasts are left out.
\<close>

definition stepPlayer :: "real \<Rightarrow> dir option \<Rightarrow> game \<Rightarrow> game" where
  "stepPlayer now desired g =
     (if active (gatherSt g) then g
      else case desired of
        None \<Rightarrow> g
      | Some des \<Rightarrow>
          if now - lastMoveAt (player g) < MOVE_COOLDOWN_MS
          then g\<lparr>player := (player g)\<lparr>facing := des\<rparr>\<rparr>
          else
            let dx = (if des = Left then -1 else if des = Right then 1 else 0);
                dy = (if des = Up then -1 else if des = Down then 1 else 0);
                nx = p_x (player g) + dx;
                ny = p_y (player g) + dy;
                g1 = g\<lparr>player := (player g)\<lparr>facing := des\<rparr>\<rparr>
            in if \<not> isBlocked g1 nx ny
               then g1\<lparr>player := (player g1)\<lparr>p_x := nx, p_y := ny, lastMoveAt := now\<rparr>\<rparr>
               else g1)"

subsection \<open>Growth\<close>




subsection \<open>Skills\<close>

definition defaultSkills :: "string \<rightharpoonup> skill" where
  "defaultSkills =
     [''mining'' \<mapsto> \<lparr>level = 1, xp = 0\<rparr>,
      ''flower'' \<mapsto> \<lparr>level = 1, xp = 0\<rparr>,
      ''harvesting'' \<mapsto> \<lparr>level = 1, xp = 0\<rparr>]"

text \<open>\<open>ensureSkills\<close>: a skill that is missing gets its default.\<close>

definition ensureSkills :: "(string \<rightharpoonup> skill) \<Rightarrow> (string \<rightharpoonup> skill)" where
  "ensureSkills sk = (\<lambda>k. case sk k of Some s \<Rightarrow> Some s | None \<Rightarrow> defaultSkills k)"

definition expNeededFor :: "int \<Rightarrow> int" where
  "expNeededFor lvl = 10 + (max 1 lvl - 1) * 10"

text \<open>The \<open>while\<close> loop of \<open>awardSkillExp\<close>.\<close>

function levelUp :: "skill \<Rightarrow> skill" where
  "levelUp s =
     (if xp s \<ge> expNeededFor (level s)
      then levelUp (s\<lparr>xp := xp s - expNeededFor (level s), level := level s + 1\<rparr>)
      else s)"
  by pat_completeness auto
termination
  by (relation "measure (\<lambda>s. nat (xp s))") (auto simp: expNeededFor_def)

definition toUpperChar :: "char \<Rightarrow> char" where
  "toUpperChar c =
     (let k = (of_char c :: nat) in if 97 \<le> k \<and> k \<le> 122 then char_of (k - 32) else c)"

definition capitalize :: "string \<Rightarrow> string" where
  "capitalize key = (case key of [] \<Rightarrow> [] | c # cs \<Rightarrow> toUpperChar c # cs)"

function natToString :: "nat \<Rightarrow> string" where
  "natToString n =
     (if n < 10 then [char_of (48 + n)]
      else natToString (n div 10) @ [char_of (48 + n mod 10)])"
  by pat_completeness auto
termination
  by (relation "measure id") auto

definition intToString :: "int \<Rightarrow> string" where
  "intToString i = (if i < 0 then CHR ''-'' # natToString (nat (- i)) else natToString (nat i))"

text \<open>\<open>awardSkillExp(key, amount)\<close>; the skills panel and saving are left out.\<close>

definition awardSkillExp :: "string \<Rightarrow> int \<Rightarrow> game \<Rightarrow> game" where
  "awardSkillExp key amount g =
     (let sk = ensureSkills (skills g);
          g0 = g\<lparr>skills := sk\<rparr>
      in case sk key of
           None \<Rightarrow> g0
         | Some s \<Rightarrow>
             let s1 = s\<lparr>xp := xp s + max 0 amount\<rparr>;
                 s2 = levelUp s1;
                 leveled = (level s2 \<noteq> level s1);
                 g1 = g0\<lparr>skills := sk(key \<mapsto> s2)\<rparr>
             in if leveled
                then showFloatingText (capitalize key @ '' Lv '' @ intToString (level s2) @ ''!'')
                       (p_x (player g1)) (p_y (player g1)) ''#7a5fa3'' g1
                else g1)"

subsection \<open>Gathering\<close>

definition isDecorGatherable :: "decoration \<Rightarrow> bool" where
  "isDecorGatherable d =
     (let hasHarvests = (case remainingHarvests d of None \<Rightarrow> True | Some n \<Rightarrow> n > 0)
      in hasHarvests \<and> (dtype d = ''Trees'' \<or> dtype d = ''flowers'' \<or> dtype d = ''minerals''))"

text \<open>
  \<open>startGathering({ d })\<close> at \<open>performance.now() = now\<close>; the reference is \<open>None\<close> when
  \<open>d\<close> is \<open>null\<close>. The progress widgets and the tool shown are left out.
\<close>

definition startGathering :: "real \<Rightarrow> ref option \<Rightarrow> game \<Rightarrow> game" where
  "startGathering now dref g =
     (case dref of
        None \<Rightarrow> g
      | Some r \<Rightarrow>
          let d = store g r
          in if (case remainingHarvests d of Some n \<Rightarrow> n \<le> 0 | None \<Rightarrow> False)
             then showFloatingText ''Depleted'' (d_x d) (d_y d) ''#ef476f'' g
             else if current (stamina g) < 1
             then showFloatingText ''Out of stamina'' (d_x d) (d_y d) ''#ef476f'' g
             else g\<lparr>gatherSt := \<lparr>active = True, target = Some r, startAt = now,
                                   duration = GATHER_TIME_MS, progress = 0\<rparr>\<rparr>)"

text \<open>
  The tables of the inventory are plain objects: the map holds their own keys, and a key
  a table does not own is looked up in \<open>Object.prototype\<close>, whose members are these.
\<close>

definition OBJECT_PROTOTYPE_KEYS :: "string list" where
  "OBJECT_PROTOTYPE_KEYS =
     [''constructor'', ''__defineGetter__'', ''__defineSetter__'', ''hasOwnProperty'',
      ''__lookupGetter__'', ''__lookupSetter__'', ''isPrototypeOf'', ''propertyIsEnumerable'',
      ''toString'', ''valueOf'', ''__proto__'', ''toLocaleString'']"

text \<open>
  \<open>obj[key] = (obj[key] || 0) + 1\<close>. An inherited member is truthy, and adding 1 to it
  makes a string, which is stored under the key and grows with every further addition; the
  setter of \<open>__proto__\<close> ignores the string.
\<close>

definition addOne :: "(string \<rightharpoonup> slot) \<Rightarrow> string \<Rightarrow> (string \<rightharpoonup> slot)" where
  "addOne tbl key =
     (case tbl key of
        Some (Count c) \<Rightarrow> tbl(key \<mapsto> Count (c + 1))
      | Some Junk \<Rightarrow> tbl(key \<mapsto> Junk)
      | None \<Rightarrow>
          if key \<in> set OBJECT_PROTOTYPE_KEYS
          then (if key = ''__proto__'' then tbl else tbl(key \<mapsto> Junk))
          else tbl(key \<mapsto> Count 1))"

definition categoryOf :: "decoration \<Rightarrow> category" where
  "categoryOf d =
     (if dtype d = ''Trees'' then TREE else if dtype d = ''flowers'' then FLOWER else MINERAL)"

text \<open>
  The node name passed to \<open>gather\<close>: a missing \<open>kind\<close> prints as \<open>undefined\<close> in the
  template of a tree and is replaced by \<open>Unknown\<close> otherwise, as an empty one is.
\<close>

definition nodeNameOf :: "decoration \<Rightarrow> string" where
  "nodeNameOf d =
     (if categoryOf d = TREE
      then (case kind d of None \<Rightarrow> ''undefined'' | Some k \<Rightarrow> k) @ '' Tree''
      else (case kind d of None \<Rightarrow> ''Unknown'' | Some k \<Rightarrow> if k = [] then ''Unknown'' else k))"

definition gkeyOf :: "item \<Rightarrow> string" where
  "gkeyOf it = iname it @ ''__'' @ irarity it @ ''__'' @ iquality it"

definition skillKey :: "category \<Rightarrow> string" where
  "skillKey cat = (case cat of MINERAL \<Rightarrow> ''mining'' | FLOWER \<Rightarrow> ''flower'' | TREE \<Rightarrow> ''harvesting'')"

text \<open>
  The inventory after the rolled item has been counted. When the name is a member of
  \<open>Object.prototype\<close> and has no metadata of its own, \<open>mm\<close> is that member, it has no
  \<open>countsByRarity\<close>, and the update throws a \<open>TypeError\<close> after both stacks have been
  written: \<open>Inl\<close> carries the inventory at the throw.
\<close>

definition addGathered :: "item \<Rightarrow> string \<Rightarrow> inventory \<Rightarrow> inventory + inventory" where
  "addGathered it nodeName iv =
     (let iv1 = iv\<lparr>items := addOne (items iv) (iname it),
                     gitems := addOne (gitems iv) (gkeyOf it)\<rparr>;
          seen = (\<lambda>mm. \<lparr>total = total mm + 1,
                         countsByRarity = addOne (countsByRarity mm) (irarity it),
                         countsByQuality = addOne (countsByQuality mm) (iquality it),
                         last_meta = Some \<lparr>l_rarity = irarity it, l_quality = iquality it,
                                            l_category = icategory it, l_source = nodeName\<rparr>\<rparr>)
      in case itemMeta iv (iname it) of
           Some mm \<Rightarrow> Inr (iv1\<lparr>itemMeta := (itemMeta iv)(iname it \<mapsto> seen mm)\<rparr>)
         | None \<Rightarrow>
             if iname it \<in> set OBJECT_PROTOTYPE_KEYS then Inl iv1
             else Inr (iv1\<lparr>itemMeta := (itemMeta iv)(iname it \<mapsto>
                         seen \<lparr>total = 0, countsByRarity = Map.empty,
                               countsByQuality = Map.empty, last_meta = None\<rparr>)\<rparr>))"

text \<open>The 2% seed drop of trees and flowers, drawn from \<open>Math.random\<close>.\<close>

definition seedDrop :: "rng \<Rightarrow> category \<Rightarrow> decoration \<Rightarrow> game \<Rightarrow> game" where
  "seedDrop random cat d g =
     (if cat = TREE \<or> cat = FLOWER then
        let v = random (randomCalls g);
            g1 = g\<lparr>randomCalls := Suc (randomCalls g)\<rparr>
        in if v < 0.02 then
             let base = (case kind d of None \<Rightarrow> [] | Some k \<Rightarrow> if k = [] then [] else trim k)
             in if base \<noteq> [] then
                  let seedName = base @ '' Seed'';
                      seedKey = seedName @ ''__Unknown__Unknown''
                  in showFloatingText (''+1 '' @ seedName) (d_x d) (d_y d) ''#a3e635''
                       (g1\<lparr>inv := (inv g1)\<lparr>gitems := addOne (gitems (inv g1)) seedKey\<rparr>\<rparr>)
                else g1
           else g1
      else g)"

text \<open>
  The last block of \<open>finishGathering\<close>: the counter of the object goes down, and at 0 the
  tile is freed and the first occurrence of the object leaves the layer.
\<close>

definition consumeHarvest :: "ref \<Rightarrow> game \<Rightarrow> game" where
  "consumeHarvest r g =
     (let d = store g r
      in case remainingHarvests d of
           None \<Rightarrow> g
         | Some n \<Rightarrow>
             let n' = max 0 (n - 1);
                 g1 = g\<lparr>store := (store g)(r := d\<lparr>remainingHarvests := Some n'\<rparr>)\<rparr>
             in if n' = 0 then
                  let gx = d_x d; gy = d_y d;
                      g2 = (case tileAt g1 gx gy of
                              None \<Rightarrow> g1
                            | Some t \<Rightarrow>
                                g1\<lparr>world := (world g1)(gy := (world g1 gy)(gx := t\<lparr>walkable := True\<rparr>))\<rparr>);
                      g3 = g2\<lparr>decor := remove1 r (decor g2)\<rparr>
                  in showFloatingText ''Resource depleted'' gx gy ''#ef476f'' g3
                else g1)"

text \<open>
  \<open>finishGathering\<close>, with \<open>Math.random\<close> as \<open>random\<close>. Whatever is thrown inside is
  caught at the end, where \<open>Gather failed\<close> is shown. Saving and the inventory panel are
  left out.
\<close>

definition finishGathering :: "rng \<Rightarrow> game \<Rightarrow> game" where
  "finishGathering random g =
     (case target (gatherSt g) of
        None \<Rightarrow> g
      | Some r \<Rightarrow>
          let d = store g r;
              cat = categoryOf d;
              nodeName = nodeNameOf d;
              gx = d_x d; gy = d_y d
          in if itemSystemLoaded g then
               (case gather cat nodeName random (randomCalls g) of
                  Inl e \<Rightarrow> showFloatingText ''Gather failed'' gx gy ''#ef476f'' g
                | Inr (gathered, n) \<Rightarrow>
                    (case addGathered gathered nodeName (inv g) of
                       Inl iv \<Rightarrow>
                         showFloatingText ''Gather failed'' gx gy ''#ef476f''
                           (g\<lparr>randomCalls := n, inv := iv\<rparr>)
                     | Inr iv \<Rightarrow>
                         let g1 = g\<lparr>randomCalls := n, inv := iv\<rparr>;
                             g2 = seedDrop random cat d g1;
                             g3 = showFloatingText
                                    (''+1 '' @ iname gathered @ '' ('' @ irarity gathered
                                       @ '', '' @ iquality gathered @ '')'')
                                    gx gy ''#22c55e'' g2;
                             g4 = awardSkillExp (skillKey cat) 1 g3;
                             g5 = g4\<lparr>stamina := drain 1 (stamina g4)\<rparr>
                         in consumeHarvest r g5))
             else showFloatingText ''Cannot gather (ItemSystem missing)'' gx gy ''#ef476f'' g)"

text \<open>\<open>updateGathering(now)\<close>; the progress bar is left out.\<close>

definition updateGathering :: "rng \<Rightarrow> real \<Rightarrow> game \<Rightarrow> game" where
  "updateGathering random now g =
     (if \<not> active (gatherSt g) then g
      else
        let elapsed = now - startAt (gatherSt g);
            k = max 0 (min 1 (elapsed / duration (gatherSt g)));
            g1 = g\<lparr>gatherSt := (gatherSt g)\<lparr>progress := k\<rparr>\<rparr>
        in if k \<ge> 1 then
             let g2 = finishGathering random g1
             in g2\<lparr>gatherSt := (gatherSt g2)\<lparr>active := False, target := None\<rparr>\<rparr>
           else g1)"

subsection \<open>The world codec\<close>

text \<open>The objects \<open>{ ty, st, gm }\<close> and \<open>{ i, ti, wa, wr, pl, w }\<close> of a saved world.\<close>

record saved_plant =
  ty :: crop
  st :: nat
  gm :: int






subsection \<open>Remote players\<close>

record view =
  rx :: real
  ry :: real
  tx :: real
  ty_v :: real
  vx :: real
  vy :: real
  v_facing :: dir
  lastUpdate :: real

text \<open>
  \<open>ensureOtherView(uid, o)\<close> at \<open>performance.now() = tcreate\<close>; the view object is shared
  with the map, so the callers below store it back after changing it.
\<close>

definition ensureOtherView ::
  "(string \<rightharpoonup> view) \<Rightarrow> string \<Rightarrow> real \<Rightarrow> real \<Rightarrow> dir option \<Rightarrow> real \<Rightarrow> view \<times> (string \<rightharpoonup> view)" where
  "ensureOtherView views uid ox oy ofacing tcreate =
     (case views uid of
        Some v \<Rightarrow> (v, views)
      | None \<Rightarrow>
          let v = \<lparr>rx = ox, ry = oy, tx = ox, ty_v = oy, vx = 0, vy = 0,
                   v_facing = (case ofacing of Some f \<Rightarrow> f | None \<Rightarrow> Down),
                   lastUpdate = tcreate\<rparr>
          in (v, views(uid \<mapsto> v)))"

text \<open>The new target, the velocity estimate and the snap, as both handlers do them.\<close>

definition retarget :: "real \<Rightarrow> real \<Rightarrow> real \<Rightarrow> view \<Rightarrow> view" where
  "retarget dtSec ox oy v =
     (let dx = ox - tx v;
          dy = oy - ty_v v;
          v1 = v\<lparr>tx := ox, ty_v := oy\<rparr>
      in if \<bar>dx\<bar> \<le> 3 \<and> \<bar>dy\<bar> \<le> 3
         then v1\<lparr>vx := dx / dtSec, vy := dy / dtSec\<rparr>
         else v1\<lparr>vx := 0, vy := 0, rx := ox, ry := oy\<rparr>)"

text \<open>
  The presence \<open>sync\<close> handler for one peer other than the player, whose last meta
  carries \<open>x\<close> and \<open>y\<close>; \<open>now\<close> was read before the loop and \<open>tcreate\<close> is the clock when
  a view is created.
\<close>

definition syncPeer :: "real \<Rightarrow> real \<Rightarrow> string \<Rightarrow> real \<Rightarrow> real \<Rightarrow> (string \<rightharpoonup> view) \<Rightarrow> (string \<rightharpoonup> view)" where
  "syncPeer now tcreate uid x y views =
     (let ox = of_int \<lfloor>x\<rfloor>;
          oy = of_int \<lfloor>y\<rfloor>;
          (v, views1) = ensureOtherView views uid ox oy None tcreate;
          dtSec = max 0.001 ((now - lastUpdate v) / 1000);
          dx = ox - tx v;
          dy = oy - ty_v v;
          v1 = retarget dtSec ox oy v;
          v2 = (if \<bar>dx\<bar> \<ge> \<bar>dy\<bar>
                then v1\<lparr>v_facing := (if dx > 0 then Right else if dx < 0 then Left
                                       else v_facing v1)\<rparr>
                else v1\<lparr>v_facing := (if dy > 0 then Down else if dy < 0 then Up
                                       else v_facing v1)\<rparr>)
      in views1(uid \<mapsto> v2\<lparr>lastUpdate := now\<rparr>))"

record movement =
  m_uid :: string
  m_x :: real
  m_y :: real
  m_facing :: "dir option"

text \<open>
  The \<open>movement\<close> broadcast handler; \<open>selfUid\<close> is \<open>__Presence.uid\<close>, \<open>tcreate\<close> the clock
  when a view is created and \<open>now\<close> the clock read after that. The entry of \<open>Game.others\<close>
  is left out, here and in the sync handler.
\<close>

definition movementHandler ::
  "string option \<Rightarrow> real \<Rightarrow> real \<Rightarrow> movement option \<Rightarrow> (string \<rightharpoonup> view) \<Rightarrow> (string \<rightharpoonup> view)" where
  "movementHandler selfUid now tcreate payload views =
     (case payload of
        None \<Rightarrow> views
      | Some m \<Rightarrow>
          if m_uid m = [] then views
          else if m_uid m = (case selfUid of Some u \<Rightarrow> if u = [] then ''anon'' else u
                                           | None \<Rightarrow> ''anon'')
          then views
          else
            let ox = of_int \<lfloor>m_x m\<rfloor>;
                oy = of_int \<lfloor>m_y m\<rfloor>;
                (v, views1) = ensureOtherView views (m_uid m) ox oy
                                (Some (case m_facing m of Some f \<Rightarrow> f | None \<Rightarrow> Down)) tcreate;
                dtSec = max 0.001
                          ((now - (if lastUpdate v = 0 then now else lastUpdate v)) / 1000);
                v1 = retarget dtSec ox oy v;
                v2 = (case m_facing m of Some f \<Rightarrow> v1\<lparr>v_facing := f\<rparr> | None \<Rightarrow> v1)
            in views1(m_uid m \<mapsto> v2\<lparr>lastUpdate := now\<rparr>))"

subsection \<open>The kinds of decorations\<close>

text \<open>The \<open>kinds\<close> of \<open>ASSET_MANIFEST\<close>, from which world generation and loading pick.\<close>

definition TREE_KINDS :: "string list" where
  "TREE_KINDS =
     [''Apple'', ''Birch'', ''Coconut'', ''Jacaranda'', ''Lemon'', ''Mango'', ''Maple'', ''Oak'',
      ''Orange'', ''Peach'', ''Pine'', ''Sakura'', ''Willow'']"

definition FLOWER_KINDS :: "string list" where
  "FLOWER_KINDS = [''Daisy'', ''Lotus'', ''Orchid'', ''Rose'', ''Sunflower'', ''Tulip'']"

definition MINERAL_KINDS :: "string list" where
  "MINERAL_KINDS =
     [''Adamantite'', ''Amethyst'', ''Basalt'', ''Coal'', ''Copper Ore'', ''Diamond'', ''Emerald'',
      ''Gold Ore'', ''Granite'', ''Iron Ore'', ''Limestone'', ''Marble'', ''Mooncrystal'',
      ''Mythril'', ''Obsidian'', ''Opal'', ''rock'', ''Ruby'', ''Sandstone'', ''Sapphire'',
      ''Silver Ore'', ''Slate'', ''Starstone'', ''Tin Ore'', ''Topaz'']"

subsection \<open>Notions of the properties\<close>

text \<open>The tile a decoration stands on.\<close>

definition pos :: "game \<Rightarrow> ref \<Rightarrow> int \<times> int" where
  "pos g r = (d_x (store g r), d_y (store g r))"

text \<open>A tree or a mineral, and a tile that carries one.\<close>

definition blocking :: "decoration \<Rightarrow> bool" where
  "blocking d = (dtype d = ''Trees'' \<or> dtype d = ''minerals'')"

definition carriesBlocking :: "game \<Rightarrow> int \<Rightarrow> int \<Rightarrow> bool" where
  "carriesBlocking g x y = list_ex (\<lambda>r. pos g r = (x, y) \<and> blocking (store g r)) (decor g)"

text \<open>
  The decoration layer hides no tree or mineral: on a walkable tile of the grid, a tree
  or a mineral is never behind a decoration that is neither. World generation makes the
  tile of every tree and mineral unwalkable; a tile becomes walkable again when the
  decoration found on it, its first, is used up.
\<close>

definition noneHidden :: "game \<Rightarrow> bool" where
  "noneHidden g =
     list_all (\<lambda>r. blocking (store g r) \<and> inBounds (d_x (store g r)) (d_y (store g r))
                    \<and> walkable (world g (d_y (store g r)) (d_x (store g r)))
                  \<longrightarrow> (case decorAt g (d_x (store g r)) (d_y (store g r)) of
                         Some r' \<Rightarrow> blocking (store g r')
                       | None \<Rightarrow> False))
       (decor g)"

text \<open>No tile carries more than two decorations.\<close>

definition atMostTwo :: "game \<Rightarrow> bool" where
  "atMostTwo g =
     list_all (\<lambda>r. length (filter (\<lambda>r'. pos g r' = pos g r) (decor g)) \<le> 2) (decor g)"

text \<open>Where the player can stand: in the grid, on a walkable tile without tree or mineral.\<close>

definition standable :: "game \<Rightarrow> int \<Rightarrow> int \<Rightarrow> bool" where
  "standable g x y = (inBounds x y \<and> walkable (world g y x) \<and> \<not> carriesBlocking g x y)"

text \<open>A run of \<open>stepPlayer\<close> calls, each with its clock and its keys.\<close>

definition stepPlayers :: "(real \<times> dir option) list \<Rightarrow> game \<Rightarrow> game" where
  "stepPlayers calls g = fold (\<lambda>(now, desired). stepPlayer now desired) calls g"

text \<open>
  The cumulative weights of the quality roll: the running sums of the weights, in the
  order of \<open>QUALITIES\<close>, as the addition of doubles makes them.
\<close>

fun runningSums :: "real \<Rightarrow> real list \<Rightarrow> real list" where
  "runningSums acc [] = []"
| "runningSums acc (w # ws) = fadd acc w # runningSums (fadd acc w) ws"

definition cumulativeWeights :: "real list" where
  "cumulativeWeights = runningSums 0 (map weight QUALITIES)"



text \<open>
  The experience a skill has collected in all: 10, 20, 30, ... for the levels below the
  current one, and the rest.
\<close>

fun xpBelow :: "nat \<Rightarrow> int" where
  "xpBelow 0 = 0"
| "xpBelow (Suc k) = xpBelow k + 10 * int (Suc k)"

definition totalXp :: "skill \<Rightarrow> int" where
  "totalXp s = xp s + xpBelow (nat (level s - 1))"

text \<open>No white space at either end of a string.\<close>

definition trimmed :: "string \<Rightarrow> bool" where
  "trimmed s =
     (\<not> list_ex (\<lambda>w. take (length w) s = w \<or> drop (length s - length w) s = w) WHITE_SPACE)"

subsection \<open>States for the examples\<close>

text \<open>
  The \<open>Game\<close> object as the source declares it, on an all-grass grid, with stamina as
  \<open>Mechanics\<close> declares it.
\<close>

definition grassWorld :: "int \<Rightarrow> int \<Rightarrow> tile" where
  "grassWorld = (\<lambda>y x. makeTile x y TILE_Grass)"

definition noDecoration :: decoration where
  "noDecoration = \<lparr>d_x = 0, d_y = 0, dtype = [], kind = None, maxHarvests = None,
                    remainingHarvests = None\<rparr>"

definition initialGame :: game where
  "initialGame =
     \<lparr>world = grassWorld, decor = [], store = (\<lambda>r. noDecoration),
      player = \<lparr>p_x = 0, p_y = 0, facing = Down, lastMoveAt = 0\<rparr>,
      gatherSt = \<lparr>active = False, target = None, startAt = 0, duration = GATHER_TIME_MS,
                  progress = 0\<rparr>,
      inv = \<lparr>items = Map.empty, gitems = Map.empty, itemMeta = Map.empty\<rparr>,
      skills = defaultSkills,
      stamina = \<lparr>current = 100, max_st = 100, lastRegenAt = None\<rparr>,
      floaties = [], randomCalls = 0, itemSystemLoaded = True\<rparr>"

definition decoration_at :: "int \<Rightarrow> int \<Rightarrow> string \<Rightarrow> string \<Rightarrow> int \<Rightarrow> decoration" where
  "decoration_at x y t k n =
     \<lparr>d_x = x, d_y = y, dtype = t, kind = Some k, maxHarvests = Some n,
      remainingHarvests = Some n\<rparr>"

text \<open>
  A game in progress: a rose east of the player, an oak south of the player and a coal
  rock at (2, 2), the tiles of oak and coal unwalkable as world generation leaves them,
  and five coal in the inventory, two of them common and pristine.
\<close>

definition meadowGame :: game where
  "meadowGame =
     initialGame\<lparr>world := (\<lambda>y x. (makeTile x y TILE_Grass)
                              \<lparr>walkable := \<not> ((x = 0 \<and> y = 1) \<or> (x = 2 \<and> y = 2))\<rparr>),
                 decor := [0, 1, 2],
                 store := (\<lambda>r. if r = 0 then decoration_at 1 0 ''flowers'' ''Rose'' 1
                                else if r = 1 then decoration_at 0 1 ''Trees'' ''Oak'' 3
                                else decoration_at 2 2 ''minerals'' ''Coal'' 1),
                 inv := \<lparr>items = [''Coal'' \<mapsto> Count 5],
                         gitems = [''Coal__Common__Pristine'' \<mapsto> Count 2,
                                   ''Coal__Rare__Dull'' \<mapsto> Count 3],
                         itemMeta = Map.empty\<rparr>\<rparr>"

text \<open>The same game with a gather in progress on the decoration \<open>r\<close>.\<close>

definition gatheringGame :: "ref \<Rightarrow> game" where
  "gatheringGame r =
     meadowGame\<lparr>gatherSt := \<lparr>active = True, target = Some r, startAt = 0,
                               duration = GATHER_TIME_MS, progress = 0\<rparr>\<rparr>"

text \<open>A view at rest on tile (0, 0), last updated at \<open>t\<close>.\<close>

definition peerView :: "real \<Rightarrow> view" where
  "peerView t = \<lparr>rx = 0, ry = 0, tx = 0, ty_v = 0, vx = 0, vy = 0, v_facing = Down,
                 lastUpdate = t\<rparr>"

section \<open>Properties\<close>

declare scaleUp.simps [simp del] scaleDown.simps [simp del] stripLeading.simps [simp del]
  levelUp.simps [simp del]

subsection \<open>The rarity and quality rolls\<close>

text \<open>
  C2. For every random source, the rarity roll tries Godlike (0.0001), Mythic (0.01),
  Legendary (0.10), Rare (0.25) and Uncommon (0.50) in this order; each trial draws one
  value and succeeds iff the value is strictly below its threshold; the first success is
  the result, and when all five fail the result is Common. A source that always returns 0
  gives Godlike, one that always returns 0.99 gives Common.
\<close>

theorem rollRarityCascade_trials:
  "rollRarityCascade rng n =
     (if rng n < 0.0001 then (''Godlike'', n + 1)
      else if rng (n + 1) < 0.01 then (''Mythic'', n + 2)
      else if rng (n + 2) < 0.10 then (''Legendary'', n + 3)
      else if rng (n + 3) < 0.25 then (''Rare'', n + 4)
      else if rng (n + 4) < 0.50 then (''Uncommon'', n + 5)
      else (''Common'', n + 5))
   \<and> fst (rollRarityCascade (\<lambda>_. 0) n) = ''Godlike''
   \<and> fst (rollRarityCascade (\<lambda>_. 0.99) n) = ''Common''"
  by (simp add: rollRarityCascade_def RARITIES_def eval_nat_numeral)

text \<open>The weights of the quality roll as doubles, and their running sums.\<close>

lemmas eval_double =
  toDouble_def scaleUp.simps scaleDown.simps roundEven_def pow2_def Let_def

lemma quality_weights:
  "toDouble 0.60 = 5404319552844595 / 2 ^ 53"
  "toDouble 0.30 = 5404319552844595 / 2 ^ 54"
  "toDouble 0.08 = 5764607523034235 / 2 ^ 56"
  "toDouble 0.015 = 1080863910568919 / 2 ^ 56"
  "toDouble 0.005 = 5764607523034235 / 2 ^ 60"
  by (simp_all add: eval_double)

lemma quality_sums:
  "fadd 0 (5404319552844595 / 2 ^ 53) = 5404319552844595 / 2 ^ 53"
  "fadd (5404319552844595 / 2 ^ 53) (5404319552844595 / 2 ^ 54) = 2026619832316723 / 2 ^ 51"
  "fadd (2026619832316723 / 2 ^ 51) (5764607523034235 / 2 ^ 56) = 8827055269646171 / 2 ^ 53"
  "fadd (8827055269646171 / 2 ^ 53) (1080863910568919 / 2 ^ 56) = 4481081629233643 / 2 ^ 52"
  "fadd (4481081629233643 / 2 ^ 52) (5764607523034235 / 2 ^ 60) = 9007199254740991 / 2 ^ 53"
  by (simp_all add: fadd_def eval_double)

lemma cumulativeWeights_eq:
  "cumulativeWeights =
     [5404319552844595 / 2 ^ 53, 2026619832316723 / 2 ^ 51, 8827055269646171 / 2 ^ 53,
      4481081629233643 / 2 ^ 52, 9007199254740991 / 2 ^ 53]"
  unfolding cumulativeWeights_def QUALITIES_def
  by (simp only: list.map quality.simps runningSums.simps quality_weights quality_sums)

lemma rollQuality_eq:
  "rollQuality rng n =
     (if rng n < 5404319552844595 / 2 ^ 53 then ''Dull''
      else if rng n < 2026619832316723 / 2 ^ 51 then ''Normal''
      else if rng n < 8827055269646171 / 2 ^ 53 then ''Refined''
      else if rng n < 4481081629233643 / 2 ^ 52 then ''Pristine''
      else ''Exquisite'', Suc n)"
proof -
  have "qualityLoop QUALITIES r 0 =
          (if r < 5404319552844595 / 2 ^ 53 then Some ''Dull''
           else if r < 2026619832316723 / 2 ^ 51 then Some ''Normal''
           else if r < 8827055269646171 / 2 ^ 53 then Some ''Refined''
           else if r < 4481081629233643 / 2 ^ 52 then Some ''Pristine''
           else if r < 9007199254740991 / 2 ^ 53 then Some ''Exquisite''
           else None)" for r
    unfolding QUALITIES_def
    by (simp only: qualityLoop.simps quality.simps quality_weights quality_sums Let_def)
  then show ?thesis
    by (simp add: rollQuality_def Let_def QUALITIES_def)
qed

text \<open>
  C7. For every random source, the quality roll draws one value and returns the first of
  Dull (0.60), Normal (0.30), Refined (0.08), Pristine (0.015), Exquisite (0.005) whose
  cumulative weight is strictly above the value, and Exquisite when none is; a value equal
  to a cumulative sum belongs to the next bucket. The cumulative weights are the sums the
  code computes in doubles: 0.6, 0.8999999999999999, 0.9799999999999999,
  0.9949999999999999 and 0.9999999999999999. A source that always returns 0 gives Dull,
  one that always returns 0.999 gives Exquisite.
\<close>

theorem rollQuality_cumulative:
  "cumulativeWeights =
     [5404319552844595 / 2 ^ 53, 2026619832316723 / 2 ^ 51, 8827055269646171 / 2 ^ 53,
      4481081629233643 / 2 ^ 52, 9007199254740991 / 2 ^ 53]
   \<and> rollQuality rng n =
       (case find (\<lambda>(c, q). rng n < c) (zip cumulativeWeights (map qname QUALITIES)) of
          Some (c, q) \<Rightarrow> q
        | None \<Rightarrow> ''Exquisite'', n + 1)
   \<and> rollQuality rng n =
       (if rng n < 5404319552844595 / 2 ^ 53 then ''Dull''
        else if rng n < 2026619832316723 / 2 ^ 51 then ''Normal''
        else if rng n < 8827055269646171 / 2 ^ 53 then ''Refined''
        else if rng n < 4481081629233643 / 2 ^ 52 then ''Pristine''
        else ''Exquisite'', n + 1)
   \<and> fst (rollQuality (\<lambda>_. 5404319552844595 / 2 ^ 53) n) = ''Normal''
   \<and> fst (rollQuality (\<lambda>_. 2026619832316723 / 2 ^ 51) n) = ''Refined''
   \<and> fst (rollQuality (\<lambda>_. 8827055269646171 / 2 ^ 53) n) = ''Pristine''
   \<and> fst (rollQuality (\<lambda>_. 4481081629233643 / 2 ^ 52) n) = ''Exquisite''
   \<and> fst (rollQuality (\<lambda>_. 9007199254740991 / 2 ^ 53) n) = ''Exquisite''
   \<and> fst (rollQuality (\<lambda>_. 1) n) = ''Exquisite''
   \<and> fst (rollQuality (\<lambda>_. 0) n) = ''Dull''
   \<and> fst (rollQuality (\<lambda>_. 0.999) n) = ''Exquisite''"
proof -
  have names: "map qname QUALITIES = [''Dull'', ''Normal'', ''Refined'', ''Pristine'', ''Exquisite'']"
    by (simp add: QUALITIES_def)
  have "rollQuality rng n =
       (case find (\<lambda>(c, q). rng n < c) (zip cumulativeWeights (map qname QUALITIES)) of
          Some (c, q) \<Rightarrow> q
        | None \<Rightarrow> ''Exquisite'', n + 1)"
    unfolding cumulativeWeights_eq names rollQuality_eq by simp
  then show ?thesis
    using cumulativeWeights_eq by (simp add: rollQuality_eq)
qed

subsection \<open>Stamina catch-up\<close>

text \<open>
  C4, as the claim states it, fails when the pool is full: with \<open>current = max = 100\<close>,
  \<open>lastRegenAt = 0\<close> and \<open>now = 400000\<close>, one whole interval (300000 ms) has elapsed, and the
  catch-up moves \<open>lastRegenAt\<close> to \<open>now\<close>, 400000, instead of advancing it by one interval
  to 300000.
\<close>

theorem applyStaminaCatchup_full_counterexample:
  "STAMINA_REGEN_INTERVAL_MS \<le> 400000 - 0
   \<and> lastRegenAt (applyStaminaCatchup 400000 \<lparr>current = 100, max_st = 100, lastRegenAt = Some 0\<rparr>)
       = Some 400000
   \<and> 0 + ((400000 - 0) div STAMINA_REGEN_INTERVAL_MS) * STAMINA_REGEN_INTERVAL_MS = 300000"
  by (simp add: applyStaminaCatchup_def STAMINA_REGEN_INTERVAL_MS_def)

text \<open>
  C4, amended. For every stamina state with at least one whole 5-minute interval elapsed
  since \<open>lastRegenAt\<close>: when \<open>current < max\<close>, the catch-up increases \<open>current\<close> by
  \<open>min(elapsedIntervals, max - current)\<close>, which stays at most \<open>max\<close>, and advances
  \<open>lastRegenAt\<close> by exactly \<open>elapsedIntervals \<times> interval\<close>; when the pool is already full,
  \<open>current\<close> is unchanged and \<open>lastRegenAt\<close> is set to \<open>now\<close>. With
  \<open>lastRegenAt = now - 3 \<times> interval\<close> and \<open>current = max - 1\<close> the result is \<open>current = max\<close>
  and \<open>lastRegenAt\<close> advanced by exactly \<open>3 \<times> interval\<close>.
\<close>

theorem applyStaminaCatchup_steps:
  assumes "lastRegenAt s = Some l" and "STAMINA_REGEN_INTERVAL_MS \<le> now - l"
  shows "(current s < max_st s \<longrightarrow>
            current (applyStaminaCatchup now s)
              = current s + min ((now - l) div STAMINA_REGEN_INTERVAL_MS) (max_st s - current s)
          \<and> current (applyStaminaCatchup now s) \<le> max_st s
          \<and> lastRegenAt (applyStaminaCatchup now s)
              = Some (l + ((now - l) div STAMINA_REGEN_INTERVAL_MS) * STAMINA_REGEN_INTERVAL_MS))
       \<and> (max_st s \<le> current s \<longrightarrow>
            current (applyStaminaCatchup now s) = current s
          \<and> lastRegenAt (applyStaminaCatchup now s) = Some now)
       \<and> max_st (applyStaminaCatchup now s) = max_st s"
proof -
  let ?I = STAMINA_REGEN_INTERVAL_MS
  have pos: "0 < ?I" by (simp add: STAMINA_REGEN_INTERVAL_MS_def)
  have ticks: "0 < (now - l) div ?I"
    using assms(2) pos by (simp add: pos_imp_zdiv_pos_iff)
  show ?thesis
    using assms ticks
    by (auto simp: applyStaminaCatchup_def Let_def regen_def min_def max_def)
qed

theorem applyStaminaCatchup_steps_witness:
  "current (applyStaminaCatchup 901000 \<lparr>current = 99, max_st = 100, lastRegenAt = Some 1000\<rparr>) = 100
   \<and> lastRegenAt (applyStaminaCatchup 901000 \<lparr>current = 99, max_st = 100, lastRegenAt = Some 1000\<rparr>)
       = Some (1000 + 3 * STAMINA_REGEN_INTERVAL_MS)
   \<and> lastRegenAt (applyStaminaCatchup 400000 \<lparr>current = 100, max_st = 100, lastRegenAt = Some 0\<rparr>)
       = Some 400000"
  using applyStaminaCatchup_steps [of "\<lparr>current = 99, max_st = 100, lastRegenAt = Some 1000\<rparr>" 1000 901000]
    applyStaminaCatchup_steps [of "\<lparr>current = 100, max_st = 100, lastRegenAt = Some 0\<rparr>" 0 400000]
  by (simp add: STAMINA_REGEN_INTERVAL_MS_def)

subsection \<open>Starting a gather\<close>

lemma showFloatingText_fields [simp]:
  "world (showFloatingText m x y c g) = world g"
  "decor (showFloatingText m x y c g) = decor g"
  "store (showFloatingText m x y c g) = store g"
  "player (showFloatingText m x y c g) = player g"
  "gatherSt (showFloatingText m x y c g) = gatherSt g"
  "inv (showFloatingText m x y c g) = inv g"
  "skills (showFloatingText m x y c g) = skills g"
  "stamina (showFloatingText m x y c g) = stamina g"
  "randomCalls (showFloatingText m x y c g) = randomCalls g"
  "itemSystemLoaded (showFloatingText m x y c g) = itemSystemLoaded g"
  by (simp_all add: showFloatingText_def)

text \<open>
  C9. Starting a gather with stamina below 1, or on a decoration whose \<open>remainingHarvests\<close>
  is at most 0, is rejected: the call returns normally, the only effect is the message shown
  at the decoration (\<open>Depleted\<close>, else \<open>Out of stamina\<close>), and the gather state (so
  \<open>active\<close> stays false), stamina, inventory, the decoration and the rest of the game are
  unchanged.
\<close>

theorem startGathering_rejected:
  assumes "current (stamina g) < 1 \<or> (\<exists>n. remainingHarvests (store g r) = Some n \<and> n \<le> 0)"
  shows "startGathering now (Some r) g =
           showFloatingText
             (if (\<exists>n. remainingHarvests (store g r) = Some n \<and> n \<le> 0)
              then ''Depleted'' else ''Out of stamina'')
             (d_x (store g r)) (d_y (store g r)) ''#ef476f'' g
         \<and> gatherSt (startGathering now (Some r) g) = gatherSt g
         \<and> stamina (startGathering now (Some r) g) = stamina g
         \<and> inv (startGathering now (Some r) g) = inv g
         \<and> store (startGathering now (Some r) g) = store g
         \<and> decor (startGathering now (Some r) g) = decor g
         \<and> world (startGathering now (Some r) g) = world g
         \<and> skills (startGathering now (Some r) g) = skills g
         \<and> player (startGathering now (Some r) g) = player g"
  using assms
  by (auto simp: startGathering_def Let_def split: option.splits)

theorem startGathering_rejected_witness:
  "active (gatherSt (startGathering 5 (Some 0)
      (meadowGame\<lparr>stamina := \<lparr>current = 0, max_st = 100, lastRegenAt = None\<rparr>\<rparr>))) = False
   \<and> map f_text (floaties (startGathering 5 (Some 0)
      (meadowGame\<lparr>stamina := \<lparr>current = 0, max_st = 100, lastRegenAt = None\<rparr>\<rparr>)))
       = [''Out of stamina'']
   \<and> map f_text (floaties (startGathering 5 (Some 0)
      (meadowGame\<lparr>store := (\<lambda>r. decoration_at 1 0 ''flowers'' ''Rose'' 0)\<rparr>)))
       = [''Depleted'']"
  using startGathering_rejected [of "meadowGame\<lparr>stamina := \<lparr>current = 0, max_st = 100, lastRegenAt = None\<rparr>\<rparr>" 0 5]
    startGathering_rejected [of "meadowGame\<lparr>store := (\<lambda>r. decoration_at 1 0 ''flowers'' ''Rose'' 0)\<rparr>" 0 5]
  by (simp add: meadowGame_def initialGame_def decoration_at_def showFloatingText_def)

subsection \<open>Player movement\<close>

lemma isBlocked_iff:
  "\<not> isBlocked g x y \<longleftrightarrow>
     inBounds x y \<and> walkable (world g y x)
     \<and> (case decorAt g x y of Some r \<Rightarrow> \<not> blocking (store g r) | None \<Rightarrow> True)"
  by (simp add: isBlocked_def blocking_def split: option.splits)

lemma decorAt_pos: "decorAt g x y = find (\<lambda>r. pos g r = (x, y)) (decor g)"
  by (simp add: decorAt_def pos_def)

lemma carriesBlocking_iff:
  "carriesBlocking g x y \<longleftrightarrow> (\<exists>r \<in> set (decor g). pos g r = (x, y) \<and> blocking (store g r))"
  by (simp add: carriesBlocking_def list_ex_iff)

lemma same_layer:
  assumes "world g' = world g" and "decor g' = decor g" and "store g' = store g"
  shows "isBlocked g' x y = isBlocked g x y" and "carriesBlocking g' x y = carriesBlocking g x y"
    and "standable g' x y = standable g x y" and "noneHidden g' = noneHidden g"
  using assms
  by (simp_all add: isBlocked_def decorAt_def carriesBlocking_def standable_def noneHidden_def
      pos_def cong: option.case_cong)

text \<open>Where no tree or mineral is hidden, \<open>isBlocked\<close> blocks exactly the tiles that are
  outside the grid, unwalkable, or carry a tree or a mineral.\<close>

lemma not_blocked_standable:
  assumes "noneHidden g"
  shows "\<not> isBlocked g x y \<longleftrightarrow> standable g x y"
proof
  assume nb: "\<not> isBlocked g x y"
  then have ib: "inBounds x y" and wk: "walkable (world g y x)"
    and first: "case decorAt g x y of Some r \<Rightarrow> \<not> blocking (store g r) | None \<Rightarrow> True"
    by (simp_all add: isBlocked_iff)
  have "\<not> carriesBlocking g x y"
  proof
    assume "carriesBlocking g x y"
    then obtain r where r: "r \<in> set (decor g)" "pos g r = (x, y)" "blocking (store g r)"
      by (auto simp: carriesBlocking_iff)
    then have xy: "d_x (store g r) = x" "d_y (store g r) = y"
      by (simp_all add: pos_def)
    from assms r(1) have "blocking (store g r) \<and> inBounds (d_x (store g r)) (d_y (store g r))
          \<and> walkable (world g (d_y (store g r)) (d_x (store g r)))
        \<longrightarrow> (case decorAt g (d_x (store g r)) (d_y (store g r)) of
               Some r' \<Rightarrow> blocking (store g r') | None \<Rightarrow> False)"
      by (simp add: noneHidden_def list_all_iff)
    with r(3) ib wk xy
    have "case decorAt g x y of Some r' \<Rightarrow> blocking (store g r') | None \<Rightarrow> False"
      by simp
    with first show False by (cases "decorAt g x y") simp_all
  qed
  with ib wk show "standable g x y" by (simp add: standable_def)
next
  assume st: "standable g x y"
  show "\<not> isBlocked g x y"
  proof (cases "decorAt g x y")
    case None
    with st show ?thesis by (simp add: isBlocked_iff standable_def)
  next
    case (Some r)
    then have "r \<in> set (decor g)" and "pos g r = (x, y)"
      by (auto simp: decorAt_pos find_Some_iff)
    with st have "\<not> blocking (store g r)"
      by (auto simp: standable_def carriesBlocking_iff)
    with st Some show ?thesis by (simp add: isBlocked_iff standable_def)
  qed
qed

lemma stepPlayer_layer:
  "world (stepPlayer now desired g) = world g"
  "decor (stepPlayer now desired g) = decor g"
  "store (stepPlayer now desired g) = store g"
  by (simp_all add: stepPlayer_def Let_def split: option.splits)

lemma stepPlayer_moved:
  assumes "(p_x (player (stepPlayer now desired g)), p_y (player (stepPlayer now desired g)))
             \<noteq> (p_x (player g), p_y (player g))"
  shows "\<not> isBlocked g (p_x (player (stepPlayer now desired g)))
             (p_y (player (stepPlayer now desired g)))"
proof -
  have "isBlocked (g\<lparr>player := p\<rparr>) a b = isBlocked g a b" for p a b
    by (rule same_layer) simp_all
  then show ?thesis
    using assms by (auto simp: stepPlayer_def Let_def split: option.splits if_splits)
qed

lemma stepPlayer_standable:
  assumes "noneHidden g" and "standable g (p_x (player g)) (p_y (player g))"
  shows "standable (stepPlayer now desired g) (p_x (player (stepPlayer now desired g)))
           (p_y (player (stepPlayer now desired g)))"
proof -
  let ?g = "stepPlayer now desired g"
  have "standable g (p_x (player ?g)) (p_y (player ?g))"
  proof (cases "(p_x (player ?g), p_y (player ?g)) = (p_x (player g), p_y (player g))")
    case True
    with assms(2) show ?thesis by simp
  next
    case False
    then show ?thesis
      using stepPlayer_moved not_blocked_standable [OF assms(1)] by blast
  qed
  then show ?thesis
    by (simp add: same_layer(3) [OF stepPlayer_layer])
qed

lemma stepPlayers_standable:
  "noneHidden g \<Longrightarrow> standable g (p_x (player g)) (p_y (player g)) \<Longrightarrow>
   noneHidden (stepPlayers calls g)
   \<and> standable (stepPlayers calls g) (p_x (player (stepPlayers calls g)))
       (p_y (player (stepPlayers calls g)))"
proof (induction calls arbitrary: g)
  case Nil
  then show ?case by (simp add: stepPlayers_def)
next
  case (Cons c calls)
  obtain now desired where c: "c = (now, desired)" by (cases c)
  have "noneHidden (stepPlayer now desired g)"
    using Cons.prems(1) by (simp add: same_layer(4) [OF stepPlayer_layer])
  moreover have "standable (stepPlayer now desired g) (p_x (player (stepPlayer now desired g)))
                   (p_y (player (stepPlayer now desired g)))"
    using Cons.prems by (rule stepPlayer_standable)
  ultimately show ?case
    using Cons.IH [of "stepPlayer now desired g"] by (simp add: stepPlayers_def c)
qed

text \<open>
  C10. Implicit invariant of player movement, on a decoration layer that hides no tree
  or mineral (world generation leaves the tile of every tree and mineral unwalkable, and a
  completed gather keeps such a layer, \<open>finishGathering_noneHidden\<close>): \<open>stepPlayer\<close>
  changes neither the grid nor the decorations; for every
  player step, the destination is taken only if it is inside the \<open>WORLD_W \<times> WORLD_H\<close> grid,
  its tile is walkable, and it carries no tree or mineral decoration; hence a player who
  starts in bounds on a walkable tile without tree or mineral (where the game spawns the
  player) is in bounds on a walkable tile without tree or mineral, which \<open>isBlocked\<close> does
  not block, after every \<open>stepPlayer\<close> call of any run of calls.
\<close>

theorem stepPlayer_stays_unblocked:
  assumes "noneHidden g"
  shows "world (stepPlayer now desired g) = world g
       \<and> decor (stepPlayer now desired g) = decor g
       \<and> store (stepPlayer now desired g) = store g
       \<and> ((p_x (player (stepPlayer now desired g)), p_y (player (stepPlayer now desired g)))
            \<noteq> (p_x (player g), p_y (player g))
          \<longrightarrow> inBounds (p_x (player (stepPlayer now desired g)))
                (p_y (player (stepPlayer now desired g)))
            \<and> walkable (world g (p_y (player (stepPlayer now desired g)))
                          (p_x (player (stepPlayer now desired g))))
            \<and> (\<forall>r \<in> set (decor g).
                  pos g r = (p_x (player (stepPlayer now desired g)),
                             p_y (player (stepPlayer now desired g)))
                  \<longrightarrow> dtype (store g r) \<noteq> ''Trees'' \<and> dtype (store g r) \<noteq> ''minerals''))
       \<and> (inBounds (p_x (player g)) (p_y (player g))
            \<and> walkable (world g (p_y (player g)) (p_x (player g)))
            \<and> \<not> carriesBlocking g (p_x (player g)) (p_y (player g))
          \<longrightarrow> inBounds (p_x (player (stepPlayers calls g))) (p_y (player (stepPlayers calls g)))
            \<and> walkable (world (stepPlayers calls g) (p_y (player (stepPlayers calls g)))
                          (p_x (player (stepPlayers calls g))))
            \<and> \<not> carriesBlocking (stepPlayers calls g) (p_x (player (stepPlayers calls g)))
                  (p_y (player (stepPlayers calls g)))
            \<and> \<not> isBlocked (stepPlayers calls g) (p_x (player (stepPlayers calls g)))
                  (p_y (player (stepPlayers calls g))))"
proof -
  let ?g = "stepPlayer now desired g" and ?h = "stepPlayers calls g"
  have moved: "inBounds (p_x (player ?g)) (p_y (player ?g))
      \<and> walkable (world g (p_y (player ?g)) (p_x (player ?g)))
      \<and> (\<forall>r \<in> set (decor g). pos g r = (p_x (player ?g), p_y (player ?g))
            \<longrightarrow> dtype (store g r) \<noteq> ''Trees'' \<and> dtype (store g r) \<noteq> ''minerals'')"
    if "(p_x (player ?g), p_y (player ?g)) \<noteq> (p_x (player g), p_y (player g))"
  proof -
    have "standable g (p_x (player ?g)) (p_y (player ?g))"
      using stepPlayer_moved [OF that] not_blocked_standable [OF assms] by blast
    then show ?thesis
      by (auto simp: standable_def carriesBlocking_iff blocking_def)
  qed
  have run: "inBounds (p_x (player ?h)) (p_y (player ?h))
      \<and> walkable (world ?h (p_y (player ?h)) (p_x (player ?h)))
      \<and> \<not> carriesBlocking ?h (p_x (player ?h)) (p_y (player ?h))
      \<and> \<not> isBlocked ?h (p_x (player ?h)) (p_y (player ?h))"
    if "inBounds (p_x (player g)) (p_y (player g))
        \<and> walkable (world g (p_y (player g)) (p_x (player g)))
        \<and> \<not> carriesBlocking g (p_x (player g)) (p_y (player g))"
  proof -
    have "standable g (p_x (player g)) (p_y (player g))"
      using that by (simp add: standable_def)
    from stepPlayers_standable [OF assms this, of calls]
    show ?thesis
      using not_blocked_standable [of ?h] by (simp add: standable_def)
  qed
  show ?thesis
    using stepPlayer_layer [of now desired g] moved run by blast
qed

lemmas eval_meadow =
  meadowGame_def initialGame_def decoration_at_def makeTile_def TILE_Grass_def TILE_Water_def
  GATHER_TIME_MS_def

theorem stepPlayer_stays_unblocked_witness:
  "noneHidden meadowGame
   \<and> inBounds (p_x (player meadowGame)) (p_y (player meadowGame))
   \<and> walkable (world meadowGame (p_y (player meadowGame)) (p_x (player meadowGame)))
   \<and> \<not> carriesBlocking meadowGame (p_x (player meadowGame)) (p_y (player meadowGame))
   \<and> p_x (player (stepPlayer 1000 (Some Down) meadowGame)) = 0
   \<and> p_y (player (stepPlayer 1000 (Some Down) meadowGame)) = 0
   \<and> p_x (player (stepPlayer 1000 (Some Right) meadowGame)) = 1
   \<and> p_y (player (stepPlayer 1000 (Some Right) meadowGame)) = 0
   \<and> \<not> isBlocked (stepPlayers [(1000, Some Down), (2000, Some Right), (3000, Some Left)] meadowGame)
         (p_x (player (stepPlayers [(1000, Some Down), (2000, Some Right), (3000, Some Left)]
                         meadowGame)))
         (p_y (player (stepPlayers [(1000, Some Down), (2000, Some Right), (3000, Some Left)]
                         meadowGame)))"
proof -
  have nh: "noneHidden meadowGame"
    by (simp add: noneHidden_def blocking_def decorAt_def inBounds_def WORLD_W_def WORLD_H_def
        eval_meadow)
  have st: "inBounds (p_x (player meadowGame)) (p_y (player meadowGame))
      \<and> walkable (world meadowGame (p_y (player meadowGame)) (p_x (player meadowGame)))
      \<and> \<not> carriesBlocking meadowGame (p_x (player meadowGame)) (p_y (player meadowGame))"
    by (simp add: carriesBlocking_def pos_def blocking_def inBounds_def WORLD_W_def WORLD_H_def
        eval_meadow)
  have mv: "p_x (player (stepPlayer 1000 (Some Down) meadowGame)) = 0
      \<and> p_y (player (stepPlayer 1000 (Some Down) meadowGame)) = 0
      \<and> p_x (player (stepPlayer 1000 (Some Right) meadowGame)) = 1
      \<and> p_y (player (stepPlayer 1000 (Some Right) meadowGame)) = 0"
    by (simp add: stepPlayer_def isBlocked_def decorAt_def inBounds_def WORLD_W_def WORLD_H_def
        MOVE_COOLDOWN_MS_def Let_def eval_meadow)
  show ?thesis
    using stepPlayer_stays_unblocked [OF nh, of 1000 "Some Right"
        "[(1000, Some Down), (2000, Some Right), (3000, Some Left)]"] nh st mv
    by simp
qed

subsection \<open>Growth and water\<close>











subsection \<open>The world codec\<close>







subsection \<open>Remote players\<close>

lemma retarget_fields:
  "tx (retarget dtSec ox oy v) = ox"
  "ty_v (retarget dtSec ox oy v) = oy"
  "v_facing (retarget dtSec ox oy v) = v_facing v"
  "lastUpdate (retarget dtSec ox oy v) = lastUpdate v"
  by (simp_all add: retarget_def Let_def)

lemma retarget_teleport:
  "3 < \<bar>ox - tx v\<bar> \<or> 3 < \<bar>oy - ty_v v\<bar> \<Longrightarrow>
   vx (retarget dtSec ox oy v) = 0 \<and> vy (retarget dtSec ox oy v) = 0
   \<and> rx (retarget dtSec ox oy v) = ox \<and> ry (retarget dtSec ox oy v) = oy"
  by (auto simp: retarget_def Let_def)

lemma retarget_near:
  "\<bar>ox - tx v\<bar> \<le> 3 \<Longrightarrow> \<bar>oy - ty_v v\<bar> \<le> 3 \<Longrightarrow>
   vx (retarget dtSec ox oy v) = (ox - tx v) / dtSec
   \<and> vy (retarget dtSec ox oy v) = (oy - ty_v v) / dtSec
   \<and> rx (retarget dtSec ox oy v) = rx v \<and> ry (retarget dtSec ox oy v) = ry v"
  by (simp add: retarget_def Let_def)

lemma syncPeer_known:
  assumes "views uid = Some v" and "v' = the (syncPeer now tcreate uid x y views uid)"
    and "r = retarget (max 0.001 ((now - lastUpdate v) / 1000)) (of_int \<lfloor>x\<rfloor>) (of_int \<lfloor>y\<rfloor>) v"
  shows "vx v' = vx r \<and> vy v' = vy r \<and> rx v' = rx r \<and> ry v' = ry r
       \<and> tx v' = tx r \<and> ty_v v' = ty_v r"
  using assms by (simp add: syncPeer_def ensureOtherView_def Let_def)

lemma movementHandler_known:
  assumes "views (m_uid m) = Some v" and "m_uid m \<noteq> []"
    and "m_uid m \<noteq> (case selfUid of Some u \<Rightarrow> if u = [] then ''anon'' else u | None \<Rightarrow> ''anon'')"
    and "lastUpdate v \<noteq> 0"
    and "v' = the (movementHandler selfUid now tcreate (Some m) views (m_uid m))"
    and "r = retarget (max 0.001 ((now - lastUpdate v) / 1000))
               (of_int \<lfloor>m_x m\<rfloor>) (of_int \<lfloor>m_y m\<rfloor>) v"
  shows "vx v' = vx r \<and> vy v' = vy r \<and> rx v' = rx r \<and> ry v' = ry r
       \<and> tx v' = tx r \<and> ty_v v' = ty_v r"
  using assms
  by (cases "m_facing m") (simp_all add: movementHandler_def ensureOtherView_def Let_def)

text \<open>
  C8, as the claim states it, fails for two updates less than a millisecond apart (a
  presence sync and a movement broadcast handled back to back): the divisor is not the
  elapsed time but at least 0.001 s. For a view at rest on tile 0, last updated at 1000 ms,
  an update to tile 1 at 1000.5 ms gives the velocity 1 / 0.001 = 1000 tiles per second in
  both handlers, where the delta divided by the elapsed 0.0005 s is 2000.
\<close>

theorem remote_update_clamp_counterexample:
  "lastUpdate (peerView 1000) = 1000 \<and> tx (peerView 1000) = 0
   \<and> (1 - tx (peerView 1000)) / ((1000.5 - lastUpdate (peerView 1000)) / 1000) = 2000
   \<and> vx (the (movementHandler None 1000.5 1000.5
               (Some \<lparr>m_uid = ''peer'', m_x = 1, m_y = 0, m_facing = None\<rparr>)
               [''peer'' \<mapsto> peerView 1000] ''peer'')) = 1000
   \<and> vx (the (syncPeer 1000.5 1000.5 ''peer'' 1 0 [''peer'' \<mapsto> peerView 1000] ''peer'')) = 1000"
  by (simp add: movementHandler_def syncPeer_def ensureOtherView_def retarget_def peerView_def
      Let_def)

text \<open>
  C8, amended. For every remote-player view that exists (with a non-zero \<open>lastUpdate\<close>),
  in the presence sync handler and in the movement broadcast handler alike: the target
  becomes the received tile; when the delta from the previous target exceeds 3 tiles on
  either axis, the velocity is set to zero and the rendered position \<open>(rx, ry)\<close> is snapped
  to the new target; when the delta is within 3 tiles on both axes, the velocity is the
  delta divided by the larger of 0.001 s and the time elapsed since the last update (so by
  the elapsed time whenever at least 1 ms has elapsed), and the rendered position is not
  changed.
\<close>

theorem remote_update_velocity:
  assumes "views uid = Some v"
    and "uid \<noteq> []"
    and "uid \<noteq> (case selfUid of Some u \<Rightarrow> if u = [] then ''anon'' else u | None \<Rightarrow> ''anon'')"
    and "lastUpdate v \<noteq> 0"
    and "v' = the (syncPeer now tcreate uid x y views uid)
         \<or> v' = the (movementHandler selfUid now tcreate
                       (Some \<lparr>m_uid = uid, m_x = x, m_y = y, m_facing = fc\<rparr>) views uid)"
  shows "tx v' = of_int \<lfloor>x\<rfloor> \<and> ty_v v' = of_int \<lfloor>y\<rfloor>
       \<and> (3 < \<bar>of_int \<lfloor>x\<rfloor> - tx v\<bar> \<or> 3 < \<bar>of_int \<lfloor>y\<rfloor> - ty_v v\<bar> \<longrightarrow>
            vx v' = 0 \<and> vy v' = 0 \<and> rx v' = of_int \<lfloor>x\<rfloor> \<and> ry v' = of_int \<lfloor>y\<rfloor>)
       \<and> (\<bar>of_int \<lfloor>x\<rfloor> - tx v\<bar> \<le> 3 \<and> \<bar>of_int \<lfloor>y\<rfloor> - ty_v v\<bar> \<le> 3 \<longrightarrow>
            vx v' = (of_int \<lfloor>x\<rfloor> - tx v) / max 0.001 ((now - lastUpdate v) / 1000)
          \<and> vy v' = (of_int \<lfloor>y\<rfloor> - ty_v v) / max 0.001 ((now - lastUpdate v) / 1000)
          \<and> rx v' = rx v \<and> ry v' = ry v
          \<and> (1 \<le> now - lastUpdate v \<longrightarrow>
               vx v' = (of_int \<lfloor>x\<rfloor> - tx v) / ((now - lastUpdate v) / 1000)
             \<and> vy v' = (of_int \<lfloor>y\<rfloor> - ty_v v) / ((now - lastUpdate v) / 1000)))"
proof -
  let ?dt = "max 0.001 ((now - lastUpdate v) / 1000)"
  let ?ox = "of_int \<lfloor>x\<rfloor> :: real" and ?oy = "of_int \<lfloor>y\<rfloor> :: real"
  define r where "r = retarget ?dt ?ox ?oy v"
  have v': "vx v' = vx r \<and> vy v' = vy r \<and> rx v' = rx r \<and> ry v' = ry r
       \<and> tx v' = tx r \<and> ty_v v' = ty_v r"
    using assms(5)
  proof
    assume a: "v' = the (syncPeer now tcreate uid x y views uid)"
    show ?thesis by (rule syncPeer_known [OF assms(1) a r_def])
  next
    assume a: "v' = the (movementHandler selfUid now tcreate
                     (Some \<lparr>m_uid = uid, m_x = x, m_y = y, m_facing = fc\<rparr>) views uid)"
    show ?thesis
      using movementHandler_known [of views "\<lparr>m_uid = uid, m_x = x, m_y = y, m_facing = fc\<rparr>" v
          selfUid v' now tcreate r] assms(1-4) a r_def
      by simp
  qed
  have long: "1 \<le> now - lastUpdate v \<Longrightarrow> ?dt = (now - lastUpdate v) / 1000"
    by (simp add: max_def)
  show ?thesis
    using retarget_teleport [of ?ox v ?oy ?dt] retarget_near [of ?ox v ?oy ?dt] long
    by (auto simp: v' r_def retarget_fields)
qed

theorem remote_update_velocity_witness:
  "vx (the (syncPeer 1500 1500 ''peer'' 10.7 0 [''peer'' \<mapsto> peerView 1000] ''peer'')) = 0
   \<and> rx (the (syncPeer 1500 1500 ''peer'' 10.7 0 [''peer'' \<mapsto> peerView 1000] ''peer'')) = 10
   \<and> vx (the (movementHandler None 1500 1500
               (Some \<lparr>m_uid = ''peer'', m_x = 1, m_y = 0, m_facing = Some Right\<rparr>)
               [''peer'' \<mapsto> peerView 1000] ''peer'')) = 2
   \<and> rx (the (movementHandler None 1500 1500
               (Some \<lparr>m_uid = ''peer'', m_x = 1, m_y = 0, m_facing = Some Right\<rparr>)
               [''peer'' \<mapsto> peerView 1000] ''peer'')) = 0"
  using remote_update_velocity [of "[''peer'' \<mapsto> peerView 1000]" "''peer''" "peerView 1000" None
      "the (syncPeer 1500 1500 ''peer'' 10.7 0 [''peer'' \<mapsto> peerView 1000] ''peer'')"
      1500 1500 "10.7" 0 None]
    remote_update_velocity [of "[''peer'' \<mapsto> peerView 1000]" "''peer''" "peerView 1000" None
      "the (movementHandler None 1500 1500
               (Some \<lparr>m_uid = ''peer'', m_x = 1, m_y = 0, m_facing = Some Right\<rparr>)
               [''peer'' \<mapsto> peerView 1000] ''peer'')"
      1500 1500 1 0 "Some Right"]
  by (simp add: peerView_def)

subsection \<open>Completing a gather\<close>

lemma gkey_not_inherited:
  assumes "iquality it \<in> {''Dull'', ''Normal'', ''Refined'', ''Pristine'', ''Exquisite''}"
  shows "gkeyOf it \<notin> set OBJECT_PROTOTYPE_KEYS"
proof
  assume "gkeyOf it \<in> set OBJECT_PROTOTYPE_KEYS"
  then have "(\<lambda>s. (last (butlast s), last s)) (gkeyOf it)
               \<in> (\<lambda>s. (last (butlast s), last s)) ` set OBJECT_PROTOTYPE_KEYS"
    by (rule imageI)
  moreover have "(last (butlast (gkeyOf it)), last (gkeyOf it))
                   \<in> {(CHR ''l'', CHR ''l''), (CHR ''a'', CHR ''l''), (CHR ''e'', CHR ''d''),
                      (CHR ''n'', CHR ''e''), (CHR ''t'', CHR ''e'')}"
    using assms by (auto simp: gkeyOf_def butlast_append)
  ultimately show False by (auto simp: OBJECT_PROTOTYPE_KEYS_def)
qed

lemma addOne_other: "k \<noteq> key \<Longrightarrow> addOne tbl key k = tbl k"
  by (auto simp: addOne_def split: option.splits slot.splits)

lemma addOne_same:
  "key \<notin> set OBJECT_PROTOTYPE_KEYS \<Longrightarrow>
   addOne tbl key key =
     Some (case tbl key of None \<Rightarrow> Count 1 | Some (Count c) \<Rightarrow> Count (c + 1) | Some Junk \<Rightarrow> Junk)"
  by (auto simp: addOne_def split: option.splits slot.splits)

lemma take_rev_drop: "take n (rev xs) = rev (drop (length xs - n) xs)"
  by (simp add: take_rev)

lemma stripLeading_None: "leading ws s = None \<Longrightarrow> stripLeading ws s = s"
  by (subst stripLeading.simps) simp

lemma stripLeading_Some:
  "leading ws s = Some w \<Longrightarrow> stripLeading ws s = stripLeading ws (drop (length w) s)"
  by (subst stripLeading.simps) simp

lemma trim_id:
  assumes "trimmed s"
  shows "trim s = s"
proof -
  have no: "\<And>w. w \<in> set WHITE_SPACE \<Longrightarrow>
              take (length w) s \<noteq> w \<and> drop (length s - length w) s \<noteq> w"
    using assms by (auto simp: trimmed_def list_ex_iff)
  have "leading WHITE_SPACE s = None"
    using no by (auto simp: leading_def find_None_iff)
  then have a: "trimStart s = s"
    by (simp add: trimStart_def stripLeading_None)
  have "leading (map rev WHITE_SPACE) (rev s) = None"
    using no by (auto simp: leading_def find_None_iff take_rev_drop)
  then have "trimEnd s = s"
    by (simp add: trimEnd_def stripLeading_None)
  with a show ?thesis by (simp add: trim_def)
qed

lemma manifest_kinds_trimmed:
  "\<forall>k \<in> set (FLOWER_KINDS @ MINERAL_KINDS). trimmed k \<and> k \<noteq> [] \<and> k \<notin> set OBJECT_PROTOTYPE_KEYS"
  by (simp add: FLOWER_KINDS_def MINERAL_KINDS_def trimmed_def WHITE_SPACE_def
      OBJECT_PROTOTYPE_KEYS_def)

lemma nodeNameOf_nonempty: "nodeNameOf d \<noteq> []"
  by (simp add: nodeNameOf_def split: option.splits)

lemma rollQuality_names:
  "fst (rollQuality rng n) \<in> {''Dull'', ''Normal'', ''Refined'', ''Pristine'', ''Exquisite''}"
  by (simp add: rollQuality_eq)

lemma gather_Inr:
  assumes "nodeName \<noteq> []"
  shows "gather cat nodeName rng n =
           Inr (\<lparr>icategory = cat, source = normalizeNodeName nodeName,
                  iname = (case cat of TREE \<Rightarrow> inferTreeItem nodeName
                           | FLOWER \<Rightarrow> inferFlowerItem nodeName
                           | MINERAL \<Rightarrow> inferMineralItem nodeName),
                  irarity = fst (rollRarityCascade rng n),
                  iquality = fst (rollQuality rng (snd (rollRarityCascade rng n))),
                  icon = assetPath cat (case cat of TREE \<Rightarrow> inferTreeItem nodeName
                           | FLOWER \<Rightarrow> inferFlowerItem nodeName
                           | MINERAL \<Rightarrow> inferMineralItem nodeName)\<rparr>,
                snd (rollQuality rng (snd (rollRarityCascade rng n))))"
  using assms by (simp add: gather_def Let_def split: prod.splits)

lemma gkey_last:
  assumes "iquality it \<in> {''Dull'', ''Normal'', ''Refined'', ''Pristine'', ''Exquisite''}"
  shows "last (gkeyOf it) \<noteq> CHR ''n''"
  using assms by (auto simp: gkeyOf_def)

lemma seedDrop_fields [simp]:
  "items (inv (seedDrop random cat d g)) = items (inv g)"
  "itemMeta (inv (seedDrop random cat d g)) = itemMeta (inv g)"
  "world (seedDrop random cat d g) = world g"
  "decor (seedDrop random cat d g) = decor g"
  "store (seedDrop random cat d g) = store g"
  "player (seedDrop random cat d g) = player g"
  "gatherSt (seedDrop random cat d g) = gatherSt g"
  "skills (seedDrop random cat d g) = skills g"
  "stamina (seedDrop random cat d g) = stamina g"
  "itemSystemLoaded (seedDrop random cat d g) = itemSystemLoaded g"
  by (simp_all add: seedDrop_def Let_def showFloatingText_def)

lemma seedDrop_gitems:
  "last k \<noteq> CHR ''n'' \<Longrightarrow> gitems (inv (seedDrop random cat d g)) k = gitems (inv g) k"
proof -
  assume k: "last k \<noteq> CHR ''n''"
  have "k \<noteq> base @ '' Seed'' @ ''__Unknown__Unknown''" for base
    using k by auto
  then show ?thesis
    by (simp add: seedDrop_def Let_def showFloatingText_def addOne_other)
qed

lemma awardSkillExp_fields [simp]:
  "inv (awardSkillExp key a g) = inv g"
  "world (awardSkillExp key a g) = world g"
  "decor (awardSkillExp key a g) = decor g"
  "store (awardSkillExp key a g) = store g"
  "player (awardSkillExp key a g) = player g"
  "gatherSt (awardSkillExp key a g) = gatherSt g"
  "stamina (awardSkillExp key a g) = stamina g"
  "randomCalls (awardSkillExp key a g) = randomCalls g"
  "itemSystemLoaded (awardSkillExp key a g) = itemSystemLoaded g"
  by (simp_all add: awardSkillExp_def Let_def showFloatingText_def split: option.splits)

lemma awardSkillExp_skill:
  "ensureSkills (skills g) key = Some s \<Longrightarrow>
   skills (awardSkillExp key a g) key = Some (levelUp (s\<lparr>xp := xp s + max 0 a\<rparr>))"
  by (simp add: awardSkillExp_def Let_def showFloatingText_def)

lemma ensureSkills_skillKey:
  "ensureSkills sk (skillKey cat) =
     Some (case sk (skillKey cat) of Some s \<Rightarrow> s | None \<Rightarrow> \<lparr>level = 1, xp = 0\<rparr>)"
  by (cases cat) (auto simp: ensureSkills_def skillKey_def defaultSkills_def split: option.splits)

lemma consumeHarvest_fields [simp]:
  "inv (consumeHarvest r g) = inv g"
  "skills (consumeHarvest r g) = skills g"
  "stamina (consumeHarvest r g) = stamina g"
  "player (consumeHarvest r g) = player g"
  "gatherSt (consumeHarvest r g) = gatherSt g"
  "randomCalls (consumeHarvest r g) = randomCalls g"
  by (simp_all add: consumeHarvest_def Let_def showFloatingText_def tileAt_def
      split: option.splits)

lemma consumeHarvest_counter:
  "remainingHarvests (store g r) = Some n \<Longrightarrow>
   remainingHarvests (store (consumeHarvest r g) r) = Some (max 0 (n - 1))"
  by (simp add: consumeHarvest_def Let_def showFloatingText_def tileAt_def)

lemma consumeHarvest_last:
  "remainingHarvests (store g r) = Some 1 \<Longrightarrow>
   decor (consumeHarvest r g) = remove1 r (decor g)
   \<and> (inBounds (d_x (store g r)) (d_y (store g r)) \<longrightarrow>
        walkable (world (consumeHarvest r g) (d_y (store g r)) (d_x (store g r))))"
  by (simp add: consumeHarvest_def Let_def showFloatingText_def tileAt_def)

lemma consumeHarvest_more:
  "remainingHarvests (store g r) = Some n \<Longrightarrow> 1 < n \<Longrightarrow>
   decor (consumeHarvest r g) = decor g \<and> world (consumeHarvest r g) = world g"
  by (simp add: consumeHarvest_def Let_def)

lemma levelUp_totalXp: "1 \<le> level s \<Longrightarrow> totalXp (levelUp s) = totalXp s"
proof (induction s rule: levelUp.induct)
  case (1 s)
  have need: "expNeededFor (level s) = 10 * level s"
    using "1.prems" by (simp add: expNeededFor_def max_def)
  show ?case
  proof (cases "xp s \<ge> expNeededFor (level s)")
    case True
    let ?s = "s\<lparr>xp := xp s - expNeededFor (level s), level := level s + 1\<rparr>"
    have "totalXp (levelUp ?s) = totalXp ?s"
      using "1.IH" [OF True] "1.prems" by simp
    moreover have "nat (level s) = Suc (nat (level s - 1))"
      using "1.prems" by simp
    then have "totalXp ?s = totalXp s"
      using "1.prems" need by (simp add: totalXp_def)
    moreover have "levelUp s = levelUp ?s"
      using True by (subst levelUp.simps) simp
    ultimately show ?thesis by simp
  next
    case False
    then show ?thesis by (subst levelUp.simps) simp
  qed
qed

lemma levelUp_stays:
  "1 \<le> level s \<Longrightarrow> xp s < 10 * level s \<Longrightarrow> levelUp s = s"
  by (subst levelUp.simps) (simp add: expNeededFor_def max_def)

lemma tree_item_not_inherited: "inferTreeItem nodeName \<notin> set OBJECT_PROTOTYPE_KEYS"
proof -
  have wood: "base @ '' Wood'' \<notin> set OBJECT_PROTOTYPE_KEYS" for base
  proof
    assume "base @ '' Wood'' \<in> set OBJECT_PROTOTYPE_KEYS"
    then have "last (base @ '' Wood'') \<in> last ` set OBJECT_PROTOTYPE_KEYS" by (rule imageI)
    then show False by (auto simp: OBJECT_PROTOTYPE_KEYS_def)
  qed
  show ?thesis
    using wood
    by (auto simp: inferTreeItem_def Let_def FRUIT_TREES_def BLOSSOM_TREES_def
        OBJECT_PROTOTYPE_KEYS_def split: option.splits if_splits)
qed

lemma manifest_item_not_inherited:
  assumes "dtype d = ''Trees'' \<or> kind d = None
           \<or> (\<exists>k \<in> set (FLOWER_KINDS @ MINERAL_KINDS). kind d = Some k)"
  shows "iname (fst (projr (gather (categoryOf d) (nodeNameOf d) rng n)))
           \<notin> set OBJECT_PROTOTYPE_KEYS"
proof (cases "dtype d = ''Trees''")
  case True
  then show ?thesis
    by (simp add: gather_Inr [OF nodeNameOf_nonempty] categoryOf_def tree_item_not_inherited)
next
  case False
  have "\<exists>k. trimmed k \<and> k \<noteq> [] \<and> k \<notin> set OBJECT_PROTOTYPE_KEYS \<and> nodeNameOf d = k"
  proof (cases "kind d")
    case None
    have "trimmed ''Unknown''"
      by (simp add: trimmed_def WHITE_SPACE_def)
    then show ?thesis
      using None False by (simp add: nodeNameOf_def categoryOf_def OBJECT_PROTOTYPE_KEYS_def)
  next
    case (Some k)
    with assms False have "k \<in> set (FLOWER_KINDS @ MINERAL_KINDS)" by auto
    with manifest_kinds_trimmed
    have "trimmed k \<and> k \<noteq> [] \<and> k \<notin> set OBJECT_PROTOTYPE_KEYS" by blast
    then show ?thesis
      using Some False by (simp add: nodeNameOf_def categoryOf_def)
  qed
  then obtain k where tk: "trimmed k" "k \<noteq> []" "k \<notin> set OBJECT_PROTOTYPE_KEYS"
    and nn: "nodeNameOf d = k" by blast
  have "iname (fst (projr (gather (categoryOf d) (nodeNameOf d) rng n))) = trim k"
    using False
    by (simp add: nn gather_Inr [OF tk(2)] categoryOf_def inferFlowerItem_def
        inferMineralItem_def normalizeNodeName_def)
  then show ?thesis
    using tk by (simp add: trim_id)
qed

text \<open>The state that \<open>finishGathering\<close> hands to its last block.\<close>

lemma finishGathering_steps:
  assumes "target (gatherSt g) = Some r" and "itemSystemLoaded g"
    and "it = fst (projr (gather (categoryOf (store g r)) (nodeNameOf (store g r)) random
                    (randomCalls g)))"
    and "iname it \<notin> set OBJECT_PROTOTYPE_KEYS"
  shows "\<exists>g5. finishGathering random g = consumeHarvest r g5
           \<and> store g5 = store g \<and> decor g5 = decor g \<and> world g5 = world g
           \<and> player g5 = player g \<and> gatherSt g5 = gatherSt g
           \<and> stamina g5 = drain 1 (stamina g)
           \<and> items (inv g5) = addOne (items (inv g)) (iname it)
           \<and> (\<exists>m. itemMeta (inv g5) (iname it) = Some m
                  \<and> last_meta m = Some \<lparr>l_rarity = irarity it, l_quality = iquality it,
                                         l_category = icategory it,
                                         l_source = nodeNameOf (store g r)\<rparr>)
           \<and> gitems (inv g5) (gkeyOf it) = addOne (gitems (inv g)) (gkeyOf it) (gkeyOf it)
           \<and> skills g5 (skillKey (categoryOf (store g r)))
               = Some (levelUp ((case skills g (skillKey (categoryOf (store g r))) of
                                   Some s \<Rightarrow> s | None \<Rightarrow> \<lparr>level = 1, xp = 0\<rparr>)
                                \<lparr>xp := xp (case skills g (skillKey (categoryOf (store g r))) of
                                            Some s \<Rightarrow> s | None \<Rightarrow> \<lparr>level = 1, xp = 0\<rparr>) + 1\<rparr>))"
proof -
  let ?d = "store g r"
  let ?cat = "categoryOf ?d" and ?nn = "nodeNameOf ?d"
  let ?s = "case skills g (skillKey ?cat) of Some s \<Rightarrow> s | None \<Rightarrow> \<lparr>level = 1, xp = 0\<rparr>"
  obtain n1 where ga: "gather ?cat ?nn random (randomCalls g) = Inr (it, n1)"
    and q: "iquality it \<in> {''Dull'', ''Normal'', ''Refined'', ''Pristine'', ''Exquisite''}"
    using assms(3) rollQuality_names by (simp add: gather_Inr [OF nodeNameOf_nonempty])
  obtain iv where ag: "addGathered it ?nn (inv g) = Inr iv"
    and iv: "items iv = addOne (items (inv g)) (iname it)"
      "gitems iv = addOne (gitems (inv g)) (gkeyOf it)"
      "\<exists>m. itemMeta iv (iname it) = Some m
          \<and> last_meta m = Some \<lparr>l_rarity = irarity it, l_quality = iquality it,
                                 l_category = icategory it, l_source = ?nn\<rparr>"
    using assms(4) by (cases "itemMeta (inv g) (iname it)") (simp_all add: addGathered_def Let_def)
  define g1 where "g1 = g\<lparr>randomCalls := n1, inv := iv\<rparr>"
  define g2 where "g2 = seedDrop random ?cat ?d g1"
  define g3 where "g3 = showFloatingText
                           (''+1 '' @ iname it @ '' ('' @ irarity it @ '', ''
                              @ iquality it @ '')'') (d_x ?d) (d_y ?d) ''#22c55e'' g2"
  define g4 where "g4 = awardSkillExp (skillKey ?cat) 1 g3"
  define g5 where "g5 = g4\<lparr>stamina := drain 1 (stamina g4)\<rparr>"
  have fg: "finishGathering random g = consumeHarvest r g5"
    by (simp add: finishGathering_def assms(1,2) ga ag Let_def g1_def g2_def g3_def g4_def
        g5_def)
  have gi: "gitems (inv g2) (gkeyOf it) = gitems (inv g1) (gkeyOf it)"
    unfolding g2_def using gkey_last [OF q] by (rule seedDrop_gitems)
  have sk: "skills g3 = skills g"
    by (simp add: g3_def g2_def g1_def)
  have "store g5 = store g" "decor g5 = decor g" "world g5 = world g"
    "player g5 = player g" "gatherSt g5 = gatherSt g" "stamina g5 = drain 1 (stamina g)"
    by (simp_all add: g5_def g4_def g3_def g2_def g1_def)
  moreover have "items (inv g5) = addOne (items (inv g)) (iname it)"
    by (simp add: g5_def g4_def g3_def g2_def g1_def iv)
  moreover have "\<exists>m. itemMeta (inv g5) (iname it) = Some m
          \<and> last_meta m = Some \<lparr>l_rarity = irarity it, l_quality = iquality it,
                                 l_category = icategory it, l_source = ?nn\<rparr>"
    using iv(3) by (simp add: g5_def g4_def g3_def g2_def g1_def)
  moreover have "gitems (inv g5) (gkeyOf it) = addOne (gitems (inv g)) (gkeyOf it) (gkeyOf it)"
    using gi by (simp add: g5_def g4_def g3_def g1_def iv)
  moreover have "skills g5 (skillKey ?cat) = Some (levelUp (?s\<lparr>xp := xp ?s + 1\<rparr>))"
    using awardSkillExp_skill [of g3 "skillKey ?cat" ?s 1] ensureSkills_skillKey [of "skills g" ?cat]
      sk
    by (simp add: g5_def g4_def)
  ultimately show ?thesis using fg by blast
qed

text \<open>
  The frame in which the gather time has elapsed: \<open>updateGathering\<close> runs
  \<open>finishGathering\<close> and returns the state machine to idle.
\<close>

lemma updateGathering_completes:
  assumes "active (gatherSt g)" and "0 < duration (gatherSt g)"
    and "duration (gatherSt g) \<le> now - startAt (gatherSt g)"
  shows "updateGathering random now g =
           (finishGathering random (g\<lparr>gatherSt := (gatherSt g)\<lparr>progress := 1\<rparr>\<rparr>))
             \<lparr>gatherSt := (gatherSt g)\<lparr>progress := 1, active := False, target := None\<rparr>\<rparr>"
proof -
  have k: "max 0 (min 1 ((now - startAt (gatherSt g)) / duration (gatherSt g))) = 1"
    using assms(2,3) by (simp add: min_def max_def)
  let ?g1 = "g\<lparr>gatherSt := (gatherSt g)\<lparr>progress := 1\<rparr>\<rparr>"
  have keep: "gatherSt (finishGathering random ?g1) = gatherSt ?g1"
    by (simp add: finishGathering_def Let_def showFloatingText_def
        split: option.splits sum.splits prod.splits)
  show ?thesis
    using assms(1) keep by (simp add: updateGathering_def Let_def k)
qed

lemma trim_names:
  "trim ''Rose'' = ''Rose''" "trim ''Tulip'' = ''Tulip''" "trim ''Coal'' = ''Coal''"
  "trim ''constructor'' = ''constructor''"
  by (rule trim_id, simp add: trimmed_def WHITE_SPACE_def)+

text \<open>A no-break space (U+00A0) and a space around a name are trimmed.\<close>

lemma trim_no_break_space: "trim ([CHR 0xC2, CHR 0xA0] @ ''Rose '') = ''Rose''"
proof -
  have a: "leading WHITE_SPACE (CHR 0xC2 # CHR 0xA0 # ''Rose '') = Some [CHR 0xC2, CHR 0xA0]"
    by (simp add: leading_def WHITE_SPACE_def)
  have b: "leading WHITE_SPACE ''Rose '' = None"
    by (simp add: leading_def WHITE_SPACE_def)
  have c: "leading (map rev WHITE_SPACE) '' esoR'' = Some '' ''"
    by (simp add: leading_def WHITE_SPACE_def)
  have d: "leading (map rev WHITE_SPACE) ''esoR'' = None"
    by (simp add: leading_def WHITE_SPACE_def)
  have "trimStart ([CHR 0xC2, CHR 0xA0] @ ''Rose '') = ''Rose ''"
    using b by (simp add: trimStart_def stripLeading_Some [OF a] stripLeading_None)
  moreover have "trimEnd ''Rose '' = ''Rose''"
    using d by (simp add: trimEnd_def stripLeading_Some [OF c] stripLeading_None)
  ultimately show ?thesis by (simp add: trim_def)
qed

lemmas eval_gather =
  gatheringGame_def gather_def categoryOf_def nodeNameOf_def inferFlowerItem_def
  inferMineralItem_def normalizeNodeName_def trim_names assetPath_def rollRarityCascade_def
  RARITIES_def rollQuality_eq Let_def

text \<open>
  An item name that is a member of \<open>Object.prototype\<close>: both stacks are written, then
  the gather fails, and experience, stamina and the harvest counter stay as they were.
\<close>

lemma finishGathering_inherited_name:
  "map f_text (floaties (finishGathering (\<lambda>_. 0.99)
      ((gatheringGame 0)\<lparr>store := (\<lambda>r. decoration_at 1 0 ''flowers'' ''constructor'' 1)\<rparr>)))
     = [''Gather failed'']
   \<and> items (inv (finishGathering (\<lambda>_. 0.99)
        ((gatheringGame 0)\<lparr>store := (\<lambda>r. decoration_at 1 0 ''flowers'' ''constructor'' 1)\<rparr>)))
        ''constructor'' = Some Junk
   \<and> skills (finishGathering (\<lambda>_. 0.99)
        ((gatheringGame 0)\<lparr>store := (\<lambda>r. decoration_at 1 0 ''flowers'' ''constructor'' 1)\<rparr>))
       = defaultSkills
   \<and> current (stamina (finishGathering (\<lambda>_. 0.99)
        ((gatheringGame 0)\<lparr>store := (\<lambda>r. decoration_at 1 0 ''flowers'' ''constructor'' 1)\<rparr>)))
       = 100
   \<and> remainingHarvests (store (finishGathering (\<lambda>_. 0.99)
        ((gatheringGame 0)\<lparr>store := (\<lambda>r. decoration_at 1 0 ''flowers'' ''constructor'' 1)\<rparr>)) 0)
       = Some 1"
  by (simp add: finishGathering_def eval_meadow eval_gather addGathered_def addOne_def
      gkeyOf_def OBJECT_PROTOTYPE_KEYS_def showFloatingText_def)

text \<open>
  C5. For every decoration with a positive \<open>remainingHarvests\<close> that is the target of the
  gather, with the item system loaded and an item name that is not a member of
  \<open>Object.prototype\<close> (no decoration of the manifest, and none without a kind, has such a
  name: \<open>manifest_item_not_inherited\<close>), completing the gather rolls rarity and quality and
  adds 1 to the legacy stack of the item name and to the per-identity stack keyed
  \<open>name__rarity__quality\<close>: an absent stack becomes 1, a stack \<open>c\<close> becomes \<open>c + 1\<close>. It
  records rarity, quality, category and source as the last-seen metadata of the name,
  awards 1 experience to the skill of the category (mineral to \<open>mining\<close>, flower to
  \<open>flower\<close>, tree to \<open>harvesting\<close>): the experience of the skill grows by 1 where that
  stays below the \<open>10 * level\<close> of the next level, and the total experience, levels
  included, grows by exactly 1 in every case. It drains 1 stamina, stopping at 0, and
  decrements \<open>remainingHarvests\<close> by 1. When the counter reaches 0 the decoration leaves
  the decoration layer and its tile is walkable; otherwise layer and grid are unchanged. In
  particular one completed gather on a decoration with \<open>remainingHarvests = 1\<close> removes
  it and restores walkability.
\<close>

theorem finishGathering_effects:
  assumes "target (gatherSt g) = Some r" and "itemSystemLoaded g"
    and "remainingHarvests (store g r) = Some n" and "1 \<le> n"
    and "it = fst (projr (gather (categoryOf (store g r)) (nodeNameOf (store g r)) random
                    (randomCalls g)))"
    and "iname it \<notin> set OBJECT_PROTOTYPE_KEYS"
    and "key = (if dtype (store g r) = ''Trees'' then ''harvesting''
                else if dtype (store g r) = ''flowers'' then ''flower'' else ''mining'')"
    and "s = (case skills g key of Some s0 \<Rightarrow> s0 | None \<Rightarrow> \<lparr>level = 1, xp = 0\<rparr>)"
    and "g' = finishGathering random g"
  shows "irarity it = fst (rollRarityCascade random (randomCalls g))
       \<and> iquality it = fst (rollQuality random (snd (rollRarityCascade random (randomCalls g))))
       \<and> items (inv g') (iname it)
           = Some (case items (inv g) (iname it) of
                     None \<Rightarrow> Count 1 | Some (Count c) \<Rightarrow> Count (c + 1) | Some Junk \<Rightarrow> Junk)
       \<and> gitems (inv g') (iname it @ ''__'' @ irarity it @ ''__'' @ iquality it)
           = Some (case gitems (inv g) (iname it @ ''__'' @ irarity it @ ''__'' @ iquality it) of
                     None \<Rightarrow> Count 1 | Some (Count c) \<Rightarrow> Count (c + 1) | Some Junk \<Rightarrow> Junk)
       \<and> (\<exists>m. itemMeta (inv g') (iname it) = Some m
              \<and> last_meta m = Some \<lparr>l_rarity = irarity it, l_quality = iquality it,
                                     l_category = categoryOf (store g r),
                                     l_source = nodeNameOf (store g r)\<rparr>)
       \<and> (1 \<le> level s \<and> xp s + 1 < 10 * level s \<longrightarrow>
            skills g' key = Some (s\<lparr>xp := xp s + 1\<rparr>))
       \<and> (1 \<le> level s \<longrightarrow>
            (\<exists>s'. skills g' key = Some s' \<and> totalXp s' = totalXp s + 1))
       \<and> current (stamina g') = max 0 (current (stamina g) - 1)
       \<and> remainingHarvests (store g' r) = Some (n - 1)
       \<and> (n = 1 \<longrightarrow>
            decor g' = remove1 r (decor g)
          \<and> (distinct (decor g) \<longrightarrow> r \<notin> set (decor g'))
          \<and> (inBounds (d_x (store g r)) (d_y (store g r)) \<longrightarrow>
               walkable (world g' (d_y (store g r)) (d_x (store g r)))))
       \<and> (1 < n \<longrightarrow> decor g' = decor g \<and> world g' = world g)"
proof -
  let ?d = "store g r"
  have key: "key = skillKey (categoryOf ?d)"
    by (simp add: assms(7) skillKey_def categoryOf_def)
  obtain g5 where fg: "finishGathering random g = consumeHarvest r g5"
    and same: "store g5 = store g" "decor g5 = decor g" "world g5 = world g"
    and st: "stamina g5 = drain 1 (stamina g)"
    and it: "items (inv g5) = addOne (items (inv g)) (iname it)"
    and me: "\<exists>m. itemMeta (inv g5) (iname it) = Some m
                  \<and> last_meta m = Some \<lparr>l_rarity = irarity it, l_quality = iquality it,
                                         l_category = icategory it,
                                         l_source = nodeNameOf ?d\<rparr>"
    and gi: "gitems (inv g5) (gkeyOf it) = addOne (gitems (inv g)) (gkeyOf it) (gkeyOf it)"
    and sk: "skills g5 key = Some (levelUp (s\<lparr>xp := xp s + 1\<rparr>))"
    using finishGathering_steps [OF assms(1,2,5,6)] unfolding key assms(8) by blast
  have rolls: "irarity it = fst (rollRarityCascade random (randomCalls g))"
    "iquality it = fst (rollQuality random (snd (rollRarityCascade random (randomCalls g))))"
    using assms(5) by (simp_all add: gather_Inr [OF nodeNameOf_nonempty])
  have q: "iquality it \<in> {''Dull'', ''Normal'', ''Refined'', ''Pristine'', ''Exquisite''}"
    unfolding rolls(2) by (rule rollQuality_names)
  have rh5: "remainingHarvests (store g5 r) = Some n"
    using assms(3) same by simp
  have c1: "items (inv g') (iname it)
           = Some (case items (inv g) (iname it) of
                     None \<Rightarrow> Count 1 | Some (Count c) \<Rightarrow> Count (c + 1) | Some Junk \<Rightarrow> Junk)"
    by (simp add: assms(9) fg it addOne_same [OF assms(6)])
  have c2: "gitems (inv g') (gkeyOf it)
           = Some (case gitems (inv g) (gkeyOf it) of
                     None \<Rightarrow> Count 1 | Some (Count c) \<Rightarrow> Count (c + 1) | Some Junk \<Rightarrow> Junk)"
    by (simp add: assms(9) fg gi addOne_same [OF gkey_not_inherited [OF q]])
  have c3: "\<exists>m. itemMeta (inv g') (iname it) = Some m
              \<and> last_meta m = Some \<lparr>l_rarity = irarity it, l_quality = iquality it,
                                     l_category = categoryOf ?d, l_source = nodeNameOf ?d\<rparr>"
  proof -
    have "icategory it = categoryOf ?d"
      using assms(5) by (simp add: gather_Inr [OF nodeNameOf_nonempty])
    then show ?thesis
      using me by (simp add: assms(9) fg)
  qed
  have c5: "skills g' key = Some (levelUp (s\<lparr>xp := xp s + 1\<rparr>))"
    using sk by (simp add: assms(9) fg)
  have c5a: "skills g' key = Some (s\<lparr>xp := xp s + 1\<rparr>)"
    if "1 \<le> level s \<and> xp s + 1 < 10 * level s"
    using c5 levelUp_stays [of "s\<lparr>xp := xp s + 1\<rparr>"] that by simp
  have c6: "\<exists>s'. skills g' key = Some s' \<and> totalXp s' = totalXp s + 1" if "1 \<le> level s"
    using c5 levelUp_totalXp [of "s\<lparr>xp := xp s + 1\<rparr>"] that by (simp add: totalXp_def)
  have c7: "current (stamina g') = max 0 (current (stamina g) - 1)"
    by (simp add: assms(9) fg st drain_def)
  have c8: "remainingHarvests (store g' r) = Some (n - 1)"
    using consumeHarvest_counter [OF rh5] assms(4) by (simp add: assms(9) fg max_def)
  have c9: "decor g' = remove1 r (decor g)
          \<and> (distinct (decor g) \<longrightarrow> r \<notin> set (decor g'))
          \<and> (inBounds (d_x ?d) (d_y ?d) \<longrightarrow> walkable (world g' (d_y ?d) (d_x ?d)))"
    if "n = 1"
    using consumeHarvest_last [of g5 r] rh5 that same by (simp add: assms(9) fg)
  have c10: "decor g' = decor g \<and> world g' = world g" if "1 < n"
    using consumeHarvest_more [OF rh5 that] same by (simp add: assms(9) fg)
  show ?thesis
    using rolls c1 c2 c3 c5a c6 c7 c8 c9 c10 by (simp add: gkeyOf_def)
qed

theorem finishGathering_effects_witness:
  "items (inv (gatheringGame 2)) ''Coal'' = Some (Count 5)
   \<and> items (inv (finishGathering (\<lambda>_. 0.99) (gatheringGame 2))) ''Coal'' = Some (Count 6)
   \<and> gitems (inv (gatheringGame 2)) ''Coal__Common__Pristine'' = Some (Count 2)
   \<and> gitems (inv (finishGathering (\<lambda>_. 0.99) (gatheringGame 2))) ''Coal__Common__Pristine''
       = Some (Count 3)
   \<and> skills (gatheringGame 2) ''mining'' = Some \<lparr>level = 1, xp = 0\<rparr>
   \<and> skills (finishGathering (\<lambda>_. 0.99) (gatheringGame 2)) ''mining''
       = Some \<lparr>level = 1, xp = 1\<rparr>
   \<and> current (stamina (gatheringGame 2)) = 100
   \<and> current (stamina (finishGathering (\<lambda>_. 0.99) (gatheringGame 2))) = 99
   \<and> remainingHarvests (store (gatheringGame 2) 2) = Some 1
   \<and> remainingHarvests (store (finishGathering (\<lambda>_. 0.99) (gatheringGame 2)) 2) = Some 0
   \<and> decor (gatheringGame 2) = [0, 1, 2]
   \<and> decor (finishGathering (\<lambda>_. 0.99) (gatheringGame 2)) = [0, 1]
   \<and> \<not> walkable (world (gatheringGame 2) 2 2)
   \<and> walkable (world (finishGathering (\<lambda>_. 0.99) (gatheringGame 2)) 2 2)"
  using finishGathering_effects [of "gatheringGame 2" 2 1
      "fst (projr (gather MINERAL ''Coal'' (\<lambda>_. 0.99) 0))" "\<lambda>_. 0.99" "''mining''"
      "\<lparr>level = 1, xp = 0\<rparr>" "finishGathering (\<lambda>_. 0.99) (gatheringGame 2)"]
  by (simp add: eval_meadow eval_gather defaultSkills_def OBJECT_PROTOTYPE_KEYS_def
      inBounds_def WORLD_W_def WORLD_H_def)

text \<open>
  C1, as the claim states it, fails on the path that \<open>finishGathering\<close> invokes,
  \<open>ItemSystem.gather\<close>: a completed gather on the \<open>Rose\<close> next to the player counts an
  item named \<open>Rose\<close> in both stacks, and nothing named \<open>Rose Petals\<close>.
\<close>

theorem finishGathering_flower_counterexample:
  "target (gatherSt (gatheringGame 0)) = Some 0
   \<and> dtype (store (gatheringGame 0) 0) = ''flowers''
   \<and> kind (store (gatheringGame 0) 0) = Some ''Rose''
   \<and> iname (fst (projr (gather FLOWER ''Rose'' (\<lambda>_. 0.99) 0))) = ''Rose''
   \<and> items (inv (finishGathering (\<lambda>_. 0.99) (gatheringGame 0))) ''Rose'' = Some (Count 1)
   \<and> items (inv (finishGathering (\<lambda>_. 0.99) (gatheringGame 0))) ''Rose Petals'' = None
   \<and> gitems (inv (finishGathering (\<lambda>_. 0.99) (gatheringGame 0))) ''Rose__Common__Pristine''
       = Some (Count 1)
   \<and> gitems (inv (finishGathering (\<lambda>_. 0.99) (gatheringGame 0)))
        ''Rose Petals__Common__Pristine'' = None"
  by (simp add: finishGathering_def eval_meadow eval_gather addGathered_def addOne_def
      seedDrop_def showFloatingText_def gkeyOf_def OBJECT_PROTOTYPE_KEYS_def)

text \<open>
  C1, amended. For every flower decoration with a name, the item name produced by a
  completed gather on it, under the gather path invoked on completion
  (\<open>ItemSystem.gather\<close>, \<open>inferFlowerItem\<close>), is the flower's name with the white space at
  its two ends removed and nothing appended, so the name itself where it has no white space
  at either end: gathering a \<open>Rose\<close> yields \<open>Rose\<close>. Where that name is not a member of
  \<open>Object.prototype\<close>, the gather adds 1 to the stack of that name: an absent stack
  becomes 1, a stack \<open>c\<close> becomes \<open>c + 1\<close>.
\<close>

theorem finishGathering_flower_item:
  assumes "target (gatherSt g) = Some r" and "itemSystemLoaded g"
    and "dtype (store g r) = ''flowers''" and "kind (store g r) = Some k" and "k \<noteq> []"
    and "it = fst (projr (gather (categoryOf (store g r)) (nodeNameOf (store g r)) random
                    (randomCalls g)))"
  shows "categoryOf (store g r) = FLOWER \<and> nodeNameOf (store g r) = k
       \<and> iname it = trim k
       \<and> (trimmed k \<longrightarrow> iname it = k)
       \<and> (iname it \<notin> set OBJECT_PROTOTYPE_KEYS \<longrightarrow>
            items (inv (finishGathering random g)) (iname it)
              = Some (case items (inv g) (iname it) of
                        None \<Rightarrow> Count 1 | Some (Count c) \<Rightarrow> Count (c + 1)
                      | Some Junk \<Rightarrow> Junk))"
proof -
  have cat: "categoryOf (store g r) = FLOWER"
    using assms(3) by (simp add: categoryOf_def)
  have nn: "nodeNameOf (store g r) = k"
    using assms(4,5) cat by (simp add: nodeNameOf_def)
  have nm: "iname it = trim k"
    using assms(5,6) by (simp add: cat nn gather_Inr inferFlowerItem_def normalizeNodeName_def)
  have "items (inv (finishGathering random g)) (iname it)
          = Some (case items (inv g) (iname it) of
                    None \<Rightarrow> Count 1 | Some (Count c) \<Rightarrow> Count (c + 1) | Some Junk \<Rightarrow> Junk)"
    if ni: "iname it \<notin> set OBJECT_PROTOTYPE_KEYS"
  proof -
    obtain g5 where fg: "finishGathering random g = consumeHarvest r g5"
      and it: "items (inv g5) = addOne (items (inv g)) (iname it)"
      using finishGathering_steps [OF assms(1,2,6) ni] by blast
    show ?thesis
      by (simp add: fg it addOne_same [OF ni])
  qed
  then show ?thesis
    using cat nn nm trim_id [of k] by simp
qed

theorem finishGathering_flower_item_witness:
  "trimmed ''Rose''
   \<and> iname (fst (projr (gather FLOWER ''Rose'' (\<lambda>_. 0) 0))) = ''Rose''
   \<and> items (inv (gatheringGame 0)) ''Rose'' = None
   \<and> items (inv (finishGathering (\<lambda>_. 0) (gatheringGame 0))) ''Rose'' = Some (Count 1)"
  using finishGathering_flower_item [of "gatheringGame 0" 0 "''Rose''"
      "fst (projr (gather FLOWER ''Rose'' (\<lambda>_. 0) 0))" "\<lambda>_. 0"]
  by (simp add: eval_meadow eval_gather trimmed_def WHITE_SPACE_def OBJECT_PROTOTYPE_KEYS_def)

subsection \<open>The decoration layer after a gather\<close>

text \<open>
  A completed gather keeps a decoration layer that hides no tree or mineral: the decoration that is gathered is the one
  \<open>decorAt\<close> finds on its tile, and when it is used up the tile becomes walkable and the
  decoration behind it, if there is one, is found next.
\<close>

lemma find_remove1_other: "\<not> P r \<Longrightarrow> find P (remove1 r xs) = find P xs"
  by (induction xs) auto

lemma find_only:
  "length (filter P xs) \<le> 1 \<Longrightarrow> r \<in> set xs \<Longrightarrow> P r \<Longrightarrow> find P xs = Some r"
proof (induction xs)
  case Nil
  then show ?case by simp
next
  case (Cons a xs)
  show ?case
  proof (cases "P a")
    case True
    then have "filter P xs = []" using Cons.prems(1) by simp
    then have "r \<notin> set xs" using Cons.prems(3) by (auto simp: filter_empty_conv)
    then show ?thesis using True Cons.prems(2) by simp
  next
    case False
    then show ?thesis using Cons by auto
  qed
qed

lemma find_remove1_second:
  "find P xs = Some r \<Longrightarrow> r' \<in> set xs \<Longrightarrow> P r' \<Longrightarrow> r' \<noteq> r
   \<Longrightarrow> length (filter P xs) \<le> 2 \<Longrightarrow> find P (remove1 r xs) = Some r'"
proof (induction xs)
  case Nil
  then show ?case by simp
next
  case (Cons a xs)
  show ?case
  proof (cases "P a")
    case True
    then have a: "a = r" using Cons.prems(1) by simp
    have "length (filter P xs) \<le> 1" using True Cons.prems(5) by simp
    moreover have "r' \<in> set xs" using Cons.prems(2,4) a by simp
    ultimately have "find P xs = Some r'" using Cons.prems(3) by (rule find_only)
    then show ?thesis using a by simp
  next
    case False
    then have "a \<noteq> r" using Cons.prems(1) by (auto simp: find_Some_iff)
    then show ?thesis using False Cons by auto
  qed
qed

lemma consumeHarvest_layer:
  "pos (consumeHarvest r g) q = pos g q"
  "blocking (store (consumeHarvest r g) q) = blocking (store g q)"
  "decor (consumeHarvest r g) = decor g \<or> decor (consumeHarvest r g) = remove1 r (decor g)"
  "walkable (world (consumeHarvest r g) y x) \<longrightarrow>
     walkable (world g y x) \<or> (decor (consumeHarvest r g) = remove1 r (decor g) \<and> pos g r = (x, y))"
  by (auto simp: consumeHarvest_def Let_def pos_def blocking_def showFloatingText_def tileAt_def
      split: option.splits if_splits)

lemma consumeHarvest_noneHidden:
  assumes nh: "noneHidden g" and two: "atMostTwo g" and di: "distinct (decor g)"
    and first: "decorAt g (d_x (store g r)) (d_y (store g r)) = Some r"
  shows "noneHidden (consumeHarvest r g)"
proof -
  let ?g = "consumeHarvest r g"
  have fr: "find (\<lambda>p. pos g p = pos g r) (decor g) = Some r"
    using first by (simp add: decorAt_pos pos_def)
  then have rin: "r \<in> set (decor g)"
    by (auto simp: find_Some_iff)
  have dA: "decorAt ?g x y = find (\<lambda>p. pos g p = (x, y)) (decor ?g)" for x y
    by (simp add: decorAt_pos consumeHarvest_layer(1))
  have "case decorAt ?g (d_x (store ?g q)) (d_y (store ?g q)) of
          Some r' \<Rightarrow> blocking (store ?g r') | None \<Rightarrow> False"
    if q: "q \<in> set (decor ?g)" and bq: "blocking (store ?g q)"
      and ib: "inBounds (d_x (store ?g q)) (d_y (store ?g q))"
      and wk: "walkable (world ?g (d_y (store ?g q)) (d_x (store ?g q)))" for q
  proof -
    have pq: "(d_x (store ?g q), d_y (store ?g q)) = pos g q"
      using consumeHarvest_layer(1) [of r g q] by (simp add: pos_def)
    have qin: "q \<in> set (decor g)"
      using q consumeHarvest_layer(3) [of r g] set_remove1_subset [of r "decor g"] by auto
    have bq': "blocking (store g q)"
      using bq by (simp add: consumeHarvest_layer(2))
    have old: "case find (\<lambda>p. pos g p = pos g q) (decor g) of
                 Some r' \<Rightarrow> blocking (store g r') | None \<Rightarrow> False"
      if "walkable (world g (snd (pos g q)) (fst (pos g q)))"
      using that nh qin bq' ib pq
      by (auto simp: noneHidden_def list_all_iff decorAt_pos pos_def)
    have goal: "case find (\<lambda>p. pos g p = pos g q) (decor ?g) of
                  Some r' \<Rightarrow> blocking (store g r') | None \<Rightarrow> False"
    proof (cases "decor ?g = remove1 r (decor g) \<and> pos g r = pos g q")
      case True
      then have "q \<in> set (remove1 r (decor g))" using q by simp
      then have "q \<noteq> r" using di by auto
      moreover have "length (filter (\<lambda>p. pos g p = pos g q) (decor g)) \<le> 2"
        using two qin by (simp add: atMostTwo_def list_all_iff)
      moreover have "find (\<lambda>p. pos g p = pos g q) (decor g) = Some r"
        using fr True by simp
      ultimately have "find (\<lambda>p. pos g p = pos g q) (remove1 r (decor g)) = Some q"
        using qin by (intro find_remove1_second) simp_all
      then show ?thesis using True bq' by simp
    next
      case False
      then have w: "walkable (world g (snd (pos g q)) (fst (pos g q)))"
        using wk pq consumeHarvest_layer(4) [of r g "snd (pos g q)" "fst (pos g q)"]
        by (auto simp: pos_def)
      show ?thesis
      proof (cases "decor ?g = decor g")
        case True
        then show ?thesis using old [OF w] by simp
      next
        case nd: False
        then have rm: "decor ?g = remove1 r (decor g)"
          using consumeHarvest_layer(3) [of r g] by simp
        then have "pos g r \<noteq> pos g q" using False by simp
        then show ?thesis
          using old [OF w] by (simp add: rm find_remove1_other)
      qed
    qed
    show ?thesis
      using goal by (simp add: dA pq [symmetric] consumeHarvest_layer(2) cong: option.case_cong)
  qed
  then show ?thesis
    by (simp add: noneHidden_def list_all_iff)
qed


lemma finishGathering_layer:
  "finishGathering random g = g
   \<or> (\<exists>g5 r. target (gatherSt g) = Some r
         \<and> (finishGathering random g = g5 \<or> finishGathering random g = consumeHarvest r g5)
         \<and> world g5 = world g \<and> decor g5 = decor g \<and> store g5 = store g)"
  by (auto simp: finishGathering_def Let_def showFloatingText_def
      split: option.splits sum.splits prod.splits)

lemma finishGathering_noneHidden:
  assumes nh: "noneHidden g" and two: "atMostTwo g" and di: "distinct (decor g)"
    and tg: "target (gatherSt g) = Some r"
    and first: "decorAt g (d_x (store g r)) (d_y (store g r)) = Some r"
  shows "noneHidden (finishGathering random g)"
proof -
  from finishGathering_layer [of random g]
  consider "finishGathering random g = g"
    | g5 where "finishGathering random g = g5 \<or> finishGathering random g = consumeHarvest r g5"
      "world g5 = world g" "decor g5 = decor g" "store g5 = store g"
    using tg by auto
  then show ?thesis
  proof cases
    case 1
    then show ?thesis using nh by simp
  next
    case 2
    have nh5: "noneHidden g5"
      using nh same_layer(4) [OF 2(2,3,4)] by simp
    have "atMostTwo g5"
      using two by (simp add: atMostTwo_def pos_def 2)
    moreover have "distinct (decor g5)"
      using di by (simp add: 2)
    moreover have "decorAt g5 (d_x (store g5 r)) (d_y (store g5 r)) = Some r"
      using first by (simp add: decorAt_def 2)
    ultimately have "noneHidden (consumeHarvest r g5)"
      using nh5 by (intro consumeHarvest_noneHidden)
    then show ?thesis using 2(1) nh5 by auto
  qed
qed

text \<open>The gather of the coal rock in the example game.\<close>

lemma meadow_layer:
  "noneHidden (gatheringGame 2) \<and> atMostTwo (gatheringGame 2)
   \<and> noneHidden (finishGathering (\<lambda>_. 0.99) (gatheringGame 2))"
proof -
  have a: "noneHidden (gatheringGame 2)" "atMostTwo (gatheringGame 2)"
    "distinct (decor (gatheringGame 2))" "target (gatherSt (gatheringGame 2)) = Some 2"
    "decorAt (gatheringGame 2) (d_x (store (gatheringGame 2) 2)) (d_y (store (gatheringGame 2) 2))
       = Some 2"
    by (simp_all add: noneHidden_def atMostTwo_def pos_def blocking_def decorAt_def inBounds_def
        WORLD_W_def WORLD_H_def gatheringGame_def eval_meadow)
  then show ?thesis using finishGathering_noneHidden by blast
qed

end
